theory Spec2Isabelle
  imports Main "HOL-Library.Sublist"
begin

section \<open>JavaScript strings\<close>

text \<open>
  The handlers of \<^verbatim>\<open>src/server.ts\<close> work on JavaScript strings. A string is modelled
  as a \<^typ>\<open>string\<close> whose characters are the code units U+0000 to U+00FF (Latin-1);
  \<^verbatim>\<open>trim\<close>, \<^verbatim>\<open>toLowerCase\<close>, \<^verbatim>\<open>includes\<close>, \<^verbatim>\<open>join\<close> and the regular expression
  \<^verbatim>\<open>/SUCCESS:(.+)$/m\<close> are written out as ECMAScript defines them on that range.
\<close>

definition is_line_terminator :: "char \<Rightarrow> bool" where
  \<comment> \<open>LineTerminator: LF, CR (U+2028 and U+2029 lie outside the modelled range).\<close>
  "is_line_terminator c = (c = CHR 0x0A \<or> c = CHR 0x0D)"

definition is_white_space :: "char \<Rightarrow> bool" where
  \<comment> \<open>What \<^verbatim>\<open>trim\<close> strips: WhiteSpace (TAB, VT, FF, SP, NBSP) and LineTerminator.\<close>
  "is_white_space c =
     (c = CHR 0x09 \<or> c = CHR 0x0B \<or> c = CHR 0x0C \<or> c = CHR 0x20 \<or> c = CHR 0xA0
      \<or> is_line_terminator c)"

definition trim :: "string \<Rightarrow> string" where
  "trim s = rev (dropWhile is_white_space (rev (dropWhile is_white_space s)))"

definition lower_char :: "char \<Rightarrow> char" where
  \<comment> \<open>A-Z, and U+00C0 to U+00DE without the multiplication sign U+00D7, move up by 32.\<close>
  "lower_char c =
     (let n = (of_char c :: nat)
      in if (65 \<le> n \<and> n \<le> 90) \<or> (192 \<le> n \<and> n \<le> 222 \<and> n \<noteq> 215)
         then char_of (n + 32) else c)"

definition toLowerCase :: "string \<Rightarrow> string" where
  "toLowerCase s = map lower_char s"

fun str_includes :: "string \<Rightarrow> string \<Rightarrow> bool" where
  "str_includes [] k = (k = [])"
| "str_includes (c # cs) k = (prefix k (c # cs) \<or> str_includes cs k)"

fun join :: "string \<Rightarrow> string list \<Rightarrow> string" where
  "join sep [] = []"
| "join sep [x] = x"
| "join sep (x # y # ys) = x @ sep @ join sep (y # ys)"

text \<open>Decimal rendering of a number inside a template literal.\<close>

definition digit_char :: "nat \<Rightarrow> char" where
  "digit_char d = char_of (48 + d)"

function show_nat :: "nat \<Rightarrow> string" where
  "show_nat n = (if n < 10 then [digit_char n] else show_nat (n div 10) @ [digit_char (n mod 10)])"
  by pat_completeness auto
termination
  by (relation "measure id") auto

definition show_int :: "int \<Rightarrow> string" where
  "show_int i = (if i < 0 then CHR ''-'' # show_nat (nat (- i)) else show_nat (nat i))"

text \<open>
  \<^verbatim>\<open>pythonOutput.match(/SUCCESS:(.+)$/m)\<close>: the regular expression has no \<^verbatim>\<open>g\<close> flag, so
  \<^verbatim>\<open>match\<close> returns the leftmost match. A match starts where \<^verbatim>\<open>SUCCESS:\<close> is followed by
  at least one character that is not a line terminator; the greedy group takes the rest
  of the line, where \<^verbatim>\<open>$\<close> (multiline) holds. The result is capture group 1.
\<close>

definition rest_of_line :: "string \<Rightarrow> string" where
  "rest_of_line s = takeWhile (\<lambda>c. \<not> is_line_terminator c) s"

definition success_word :: string where
  "success_word = ''SUCCESS:''"

fun success_match :: "string \<Rightarrow> string option" where
  "success_match [] = None"
| "success_match (c # cs) =
     (if prefix success_word (c # cs)
         \<and> rest_of_line (drop (length success_word) (c # cs)) \<noteq> []
      then Some (rest_of_line (drop (length success_word) (c # cs)))
      else success_match cs)"

section \<open>JSON values\<close>

text \<open>
  The body of a JSON request is whatever \<^verbatim>\<open>express.json()\<close> parsed: the query handler
  reads \<^verbatim>\<open>query\<close>, \<^verbatim>\<open>documentIds\<close> and \<^verbatim>\<open>workspaceId\<close> from it without looking at their
  types. A value is modelled as the JSON it is; a missing key is \<open>None\<close>. Numbers are
  the integers that JavaScript prints in plain decimal.
\<close>

datatype json =
    JNull
  | JBool bool
  | JNum int
  | JStr string
  | JArr "json list"
  | JObj "(string \<times> json) list"

fun js_truthy :: "json \<Rightarrow> bool" where
  "js_truthy JNull = False"
| "js_truthy (JBool b) = b"
| "js_truthy (JNum n) = (n \<noteq> 0)"
| "js_truthy (JStr s) = (s \<noteq> [])"
| "js_truthy (JArr vs) = True"
| "js_truthy (JObj kvs) = True"

definition truthy_value :: "json option \<Rightarrow> json option" where
  \<comment> \<open>the value of a body field when it passes \<^verbatim>\<open>if (!x)\<close>\<close>
  "truthy_value x = (case x of None \<Rightarrow> None | Some v \<Rightarrow> if js_truthy v then Some v else None)"

text \<open>
  \<^verbatim>\<open>String(v)\<close>: what a template literal and the argument vector of a child process make
  of a value. An array prints its elements joined by commas, \<^verbatim>\<open>null\<close> among them as the
  empty string.
\<close>

fun js_to_string :: "json \<Rightarrow> string" where
  "js_to_string JNull = ''null''"
| "js_to_string (JBool b) = (if b then ''true'' else ''false'')"
| "js_to_string (JNum n) = show_int n"
| "js_to_string (JStr s) = s"
| "js_to_string (JArr vs) = join '','' (map (\<lambda>v. if v = JNull then [] else js_to_string v) vs)"
| "js_to_string (JObj kvs) = ''[object Object]''"

section \<open>The child process\<close>

text \<open>
  \<^verbatim>\<open>runPythonScript\<close> (server.ts, 91-125) spawns the script and settles its promise on the
  first of two events: \<^verbatim>\<open>close\<close>, with the exit code (\<^verbatim>\<open>null\<close> when a signal ended the
  process) and what was collected from stdout and stderr, or \<^verbatim>\<open>error\<close>, when the process
  could not be started. The promise resolves to \<open>Inr\<close> and rejects with the message \<open>Inl\<close>.
\<close>

datatype proc_outcome =
    Closed "int option" string string
  | SpawnError string

fun show_code :: "int option \<Rightarrow> string" where
  "show_code None = ''null''"
| "show_code (Some n) = show_int n"

fun runPythonScript :: "proc_outcome \<Rightarrow> string + string" where
  "runPythonScript (Closed code stdout stderr) =
     (if code = Some 0 then Inr (trim stdout)
      else Inl (''Python script exited with code '' @ show_code code
                @ ''. Stderr: '' @ trim stderr))"
| "runPythonScript (SpawnError m) = Inl (''Failed to start Python script: '' @ m)"

section \<open>The document collection\<close>

text \<open>
  \<^verbatim>\<open>IDocument\<close> and \<^verbatim>\<open>DocumentSchema\<close> (models/Document.ts). \<^verbatim>\<open>chromaDocumentId\<close> is the
  optional field; \<open>doc_id\<close> is Mongoose's \<^verbatim>\<open>_id\<close>, rendered as a string. The collection is
  the list of stored documents in insertion order.
\<close>

record document =
  doc_id :: string
  fileName :: string
  originalType :: string
  uploadedAt :: nat
  processed :: bool
  chromaDocumentId :: "string option"
  workspaceId :: string

type_synonym collection = "document list"

text \<open>
  What the store refuses: a document failing the schema's \<^verbatim>\<open>required: true\<close> paths (for a
  string path Mongoose's validator refuses the empty string too), a second document with
  the same \<^verbatim>\<open>_id\<close>, and a second document with the same \<^verbatim>\<open>chromaDocumentId\<close>
  (\<^verbatim>\<open>unique: true, sparse: true\<close>: documents without the field are not indexed). The error
  messages are the library's; they are kept symbolic.
\<close>

datatype store_error =
    ValidationFailed "string list"
  | DuplicateKey string

definition required_missing :: "document \<Rightarrow> string list" where
  "required_missing d =
     (if fileName d = [] then [''fileName''] else [])
     @ (if originalType d = [] then [''originalType''] else [])
     @ (if workspaceId d = [] then [''workspaceId''] else [])"

definition handle_taken :: "collection \<Rightarrow> string \<Rightarrow> string option \<Rightarrow> bool" where
  \<comment> \<open>the unique sparse index: some other document already holds this handle\<close>
  "handle_taken st i h =
     (case h of None \<Rightarrow> False
      | Some v \<Rightarrow> list_ex (\<lambda>e. doc_id e \<noteq> i \<and> chromaDocumentId e = Some v) st)"

definition insert_document :: "collection \<Rightarrow> document \<Rightarrow> store_error + collection" where
  \<comment> \<open>\<^verbatim>\<open>save()\<close> of a new document\<close>
  "insert_document st d =
     (if required_missing d \<noteq> [] then Inl (ValidationFailed (required_missing d))
      else if list_ex (\<lambda>e. doc_id e = doc_id d) st then Inl (DuplicateKey ''_id'')
      else if handle_taken st (doc_id d) (chromaDocumentId d)
        then Inl (DuplicateKey ''chromaDocumentId'')
      else Inr (st @ [d]))"

definition mark_processed :: "string \<Rightarrow> document \<Rightarrow> document" where
  "mark_processed h e = e\<lparr>processed := True, chromaDocumentId := Some h\<rparr>"

definition update_processed :: "collection \<Rightarrow> string \<Rightarrow> string \<Rightarrow> store_error + collection" where
  \<comment> \<open>\<^verbatim>\<open>save()\<close> of a stored document whose \<^verbatim>\<open>processed\<close> and \<^verbatim>\<open>chromaDocumentId\<close> were
      assigned: one update of the record with this \<^verbatim>\<open>_id\<close>, setting both paths\<close>
  "update_processed st i h =
     (if handle_taken st i (Some h) then Inl (DuplicateKey ''chromaDocumentId'')
      else Inr (map (\<lambda>e. if doc_id e = i then mark_processed h e else e) st))"

section \<open>Requests, responses and the environment\<close>

datatype error_message = Text string | StoreError store_error

text \<open>The JSON bodies the handlers send, one constructor per shape.\<close>

datatype payload =
    Message string
  | Failure string error_message
  | Uploaded string string string
  | Answer string "string list" "string option" "string list"
  | Documents string "document list"

type_synonym response = "nat \<times> payload"

record chunk =
  chunk_text :: string
  chunk_source :: string

text \<open>
  What a handler does to the outside, in order: a completed write to the collection
  (with the collection as it then stands), a run of \<^verbatim>\<open>chroma_handler.py\<close> with its
  arguments, a call of the language model with its prompt.
\<close>

datatype event =
    Saved collection
  | Spawned "string list"
  | Generated string

text \<open>
  The outside world of one request: the \<^verbatim>\<open>_id\<close> Mongoose assigns to a new document and
  the clock for \<^verbatim>\<open>uploadedAt\<close>, the outcome of running \<^verbatim>\<open>chroma_handler.py\<close> on given
  arguments, \<^verbatim>\<open>JSON.parse\<close> at the type the handler gives its result (\<open>Inl\<close>: the message
  of the error thrown), and \<^verbatim>\<open>generateContent\<close> followed by \<^verbatim>\<open>response.text()\<close>.

  The last three fields are the answers of JavaScript, Mongoose and MongoDB on values the
  model does not write out: whether a string converts to a number greater than 0; the
  cast to \<^verbatim>\<open>ObjectId\<close> of a value that is not a string of 24 hexadecimal digits (\<open>Inl\<close>:
  the message of the \<^verbatim>\<open>CastError\<close>, \<open>Inr\<close>: the id as \<^verbatim>\<open>toString()\<close> prints it); and what
  a filter value on a string path, other than a string and the operators \<^verbatim>\<open>$eq\<close> and
  \<^verbatim>\<open>$ne\<close> on a string, selects (\<open>Inl\<close>: the message of the error, \<open>Inr\<close>: the stored values
  it matches).
\<close>

record env =
  new_id :: string
  now :: nat
  python :: "string list \<Rightarrow> proc_outcome"
  json_parse :: "string \<Rightarrow> string + chunk list"
  generate :: "string \<Rightarrow> string + string"
  string_positive :: "string \<Rightarrow> bool"
  other_id_cast :: "json \<Rightarrow> string + string"
  other_filter :: "json \<Rightarrow> string + (string \<Rightarrow> bool)"

section \<open>DocumentModel.find\<close>

text \<open>
  \<^verbatim>\<open>DocumentModel.find(filter)\<close>: Mongoose casts the filter against the schema and throws
  a \<^verbatim>\<open>CastError\<close> when a value does not fit its path; MongoDB then returns the documents
  the cast filter selects. The schema declares no \<^verbatim>\<open>_id\<close>, so \<^verbatim>\<open>_id\<close> is an
  \<^verbatim>\<open>ObjectId\<close>: a string of 24 hexadecimal digits casts to the id it spells, in either
  case of the letters, and \<open>doc_id\<close> holds an id as \<^verbatim>\<open>toString()\<close> prints it, in small
  letters.
\<close>

definition is_hex_digit :: "char \<Rightarrow> bool" where
  "is_hex_digit c = (c \<in> set ''0123456789abcdefABCDEF'')"

definition cast_object_id :: "env \<Rightarrow> json \<Rightarrow> string + string" where
  "cast_object_id en v =
     (case v of
        JStr s \<Rightarrow>
          if length s = 24 \<and> list_all is_hex_digit s then Inr (toLowerCase s)
          else other_id_cast en v
      | _ \<Rightarrow> other_id_cast en v)"

fun cast_object_ids :: "env \<Rightarrow> json list \<Rightarrow> string + string list" where
  \<comment> \<open>the values are cast in order; the first that does not cast throws\<close>
  "cast_object_ids en [] = Inr []"
| "cast_object_ids en (v # vs) =
     (case cast_object_id en v of
        Inl m \<Rightarrow> Inl m
      | Inr i \<Rightarrow> (case cast_object_ids en vs of Inl m \<Rightarrow> Inl m | Inr is \<Rightarrow> Inr (i # is)))"

definition in_operand :: "json \<Rightarrow> json list" where
  \<comment> \<open>the operand of \<^verbatim>\<open>$in\<close>: an array gives its elements, any other value stands alone\<close>
  "in_operand v = (case v of JArr vs \<Rightarrow> vs | _ \<Rightarrow> [v])"

text \<open>
  A filter value on the string path \<^verbatim>\<open>workspaceId\<close>: a string selects the documents whose
  field equals it; an object whose keys are operators is a query operator, of which
  \<^verbatim>\<open>$eq\<close> and \<^verbatim>\<open>$ne\<close> on a string are written out.
\<close>

fun string_filter :: "env \<Rightarrow> json \<Rightarrow> string + (string \<Rightarrow> bool)" where
  "string_filter en (JStr s) = Inr (\<lambda>w. w = s)"
| "string_filter en (JObj [(op, JStr s)]) =
     (if op = ''$eq'' then Inr (\<lambda>w. w = s)
      else if op = ''$ne'' then Inr (\<lambda>w. w \<noteq> s)
      else other_filter en (JObj [(op, JStr s)]))"
| "string_filter en v = other_filter en v"

text \<open>
  The three filters of the handlers: \<^verbatim>\<open>{workspaceId}\<close>, \<^verbatim>\<open>{workspaceId, processed}\<close> and
  \<^verbatim>\<open>{_id: {$in: documentIds}, workspaceId, processed}\<close>. Mongoose casts the keys of a filter
  from the last to the first, so a \<^verbatim>\<open>workspaceId\<close> that does not cast is reported before
  an \<^verbatim>\<open>_id\<close> that does not.
\<close>

record doc_filter =
  id_in :: "json option"
  workspace_is :: json
  processed_is :: "bool option"

definition cast_filter :: "env \<Rightarrow> doc_filter \<Rightarrow> string + (document \<Rightarrow> bool)" where
  "cast_filter en f =
     (case string_filter en (workspace_is f) of
        Inl m \<Rightarrow> Inl m
      | Inr in_workspace \<Rightarrow>
          (case id_in f of
             None \<Rightarrow>
               Inr (\<lambda>d. in_workspace (workspaceId d)
                         \<and> (case processed_is f of None \<Rightarrow> True | Some p \<Rightarrow> processed d = p))
           | Some v \<Rightarrow>
               (case cast_object_ids en (in_operand v) of
                  Inl m \<Rightarrow> Inl m
                | Inr ids \<Rightarrow>
                    Inr (\<lambda>d. doc_id d \<in> set ids \<and> in_workspace (workspaceId d)
                              \<and> (case processed_is f of None \<Rightarrow> True
                                  | Some p \<Rightarrow> processed d = p)))))"

definition find_documents :: "env \<Rightarrow> doc_filter \<Rightarrow> collection \<Rightarrow> string + document list" where
  "find_documents en f st =
     (case cast_filter en f of Inl m \<Rightarrow> Inl m | Inr selected \<Rightarrow> Inr (filter selected st))"

section \<open>POST /api/universal-upload\<close>

record upload_file =
  originalname :: string
  mimetype :: string
  file_path :: string

text \<open>
  A field of the multipart body: absent, a string, or something that is not a string
  (\<^verbatim>\<open>typeof workspaceId !== 'string'\<close>).
\<close>

datatype form_field = Absent | Str string | NotAString

record upload_request =
  req_file :: "upload_file option"
  req_workspaceId :: form_field

definition upload_catch :: "error_message \<Rightarrow> response" where
  "upload_catch e = (500, Failure ''Error processing file'' e)"

definition embed_args :: "upload_file \<Rightarrow> string \<Rightarrow> string list" where
  "embed_args f mongoDocumentId =
     [''embed_document'', file_path f, mimetype f, mongoDocumentId]"

definition new_document :: "env \<Rightarrow> upload_file \<Rightarrow> string \<Rightarrow> document" where
  "new_document en f ws =
     \<lparr>doc_id = new_id en, fileName = originalname f, originalType = mimetype f,
      uploadedAt = now en, processed = False, chromaDocumentId = None, workspaceId = ws\<rparr>"

text \<open>
  The embedding step (server.ts, 218-236): run \<^verbatim>\<open>embed_document\<close> and look for the
  success line in what it printed. \<open>Inr\<close> is the handle (\<^verbatim>\<open>successMatch[1].trim()\<close>),
  \<open>Inl\<close> the message of the error thrown.
\<close>

definition embed_result :: "proc_outcome \<Rightarrow> string + string" where
  "embed_result outcome =
     (case runPythonScript outcome of
        Inl m \<Rightarrow> Inl m
      | Inr pythonOutput \<Rightarrow>
          (case success_match pythonOutput of
             Some g \<Rightarrow> Inr (trim g)
           | None \<Rightarrow> Inl (''Python processing failed: '' @ pythonOutput)))"

text \<open>The \<^verbatim>\<open>try\<close> block (server.ts, 194-236); every \<open>Inl\<close> is a throw caught at 237.\<close>

definition upload_try ::
  "env \<Rightarrow> collection \<Rightarrow> upload_file \<Rightarrow> string \<Rightarrow> response \<times> event list" where
  "upload_try en st f ws =
     (let newDocument = new_document en f ws
      in case insert_document st newDocument of
           Inl e \<Rightarrow> (upload_catch (StoreError e), [])
         | Inr st1 \<Rightarrow>
             (let mongoDocumentId = doc_id newDocument;
                  pythonArgs = embed_args f mongoDocumentId
              in case embed_result (python en pythonArgs) of
                   Inl m \<Rightarrow> (upload_catch (Text m), [Saved st1, Spawned pythonArgs])
                 | Inr chromaDocId \<Rightarrow>
                     (case update_processed st1 mongoDocumentId chromaDocId of
                        Inl e \<Rightarrow> (upload_catch (StoreError e), [Saved st1, Spawned pythonArgs])
                      | Inr st2 \<Rightarrow>
                          ((200, Uploaded ''File uploaded and processed successfully!''
                                   mongoDocumentId chromaDocId),
                           [Saved st1, Spawned pythonArgs, Saved st2]))))"

definition universal_upload ::
  "env \<Rightarrow> collection \<Rightarrow> upload_request \<Rightarrow> response \<times> event list" where
  "universal_upload en st req =
     (case req_file req of
        None \<Rightarrow> ((400, Message ''No file uploaded.''), [])
      | Some f \<Rightarrow>
          (case req_workspaceId req of
             Str ws \<Rightarrow>
               if ws = [] then ((400, Message ''Workspace ID is required.''), [])
               else upload_try en st f ws
           | _ \<Rightarrow> ((400, Message ''Workspace ID is required.''), [])))"

text \<open>The collection as an observer finds it: before the request, and after each write.\<close>

fun saved_states :: "event list \<Rightarrow> collection list" where
  "saved_states [] = []"
| "saved_states (Saved st # es) = st # saved_states es"
| "saved_states (_ # es) = saved_states es"

definition final_state :: "collection \<Rightarrow> event list \<Rightarrow> collection" where
  "final_state st es = last (st # saved_states es)"

text \<open>
  No other handler of the repository writes to the collection, and handlers run
  interleaved at their \<^verbatim>\<open>await\<close>s. So the collections that can be observed are those
  reached from the empty one by the two writes of the upload handler, in any order and
  number: the insertion of a new pending document, and the update that marks the document
  with some \<^verbatim>\<open>_id\<close> processed with some handle.
\<close>

inductive reachable :: "collection \<Rightarrow> bool" where
  reachable_empty: "reachable []"
| reachable_insert:
    "reachable st \<Longrightarrow> insert_document st (new_document en f ws) = Inr st' \<Longrightarrow> reachable st'"
| reachable_update:
    "reachable st \<Longrightarrow> update_processed st i h = Inr st' \<Longrightarrow> reachable st'"

section \<open>GET /api/workspaces/:workspaceId/documents\<close>

text \<open>The workspace id is a route parameter, hence a string (workspace.ts, 73-88).\<close>

definition workspace_documents :: "env \<Rightarrow> collection \<Rightarrow> string \<Rightarrow> response" where
  "workspace_documents en st ws =
     (case find_documents en \<lparr>id_in = None, workspace_is = JStr ws, processed_is = None\<rparr> st of
        Inl m \<Rightarrow> (500, Failure ''Failed to retrieve documents.'' (Text m))
      | Inr documents \<Rightarrow>
          (200, Documents (''Found '' @ show_nat (length documents)
                           @ '' documents for workspace '' @ ws @ ''.'') documents))"

section \<open>POST /api/universal-qa\<close>

record qa_request =
  qa_query :: "json option"
  qa_documentIds :: "json option"
  qa_workspaceId :: "json option"

fun truthy :: "string option \<Rightarrow> string option" where
  \<comment> \<open>\<^verbatim>\<open>Boolean(x)\<close> for a string or \<^verbatim>\<open>undefined\<close>: the value when it is truthy\<close>
  "truthy None = None"
| "truthy (Some s) = (if s = [] then None else Some s)"

definition handles_of :: "document list \<Rightarrow> string list" where
  \<comment> \<open>\<^verbatim>\<open>documents.map((doc) => doc.chromaDocumentId!).filter(Boolean)\<close>\<close>
  "handles_of documents = List.map_filter (\<lambda>d. truthy (chromaDocumentId d)) documents"

text \<open>
  \<^verbatim>\<open>documentIds && documentIds.length > 0\<close>. A string and an array have a length; an object
  has the \<^verbatim>\<open>length\<close> its last key of that name gives it, compared with 0 as a number;
  nothing else has one.
\<close>

fun greater_than_zero :: "env \<Rightarrow> json \<Rightarrow> bool" where
  "greater_than_zero en JNull = False"
| "greater_than_zero en (JBool b) = b"
| "greater_than_zero en (JNum n) = (0 < n)"
| "greater_than_zero en (JStr s) = string_positive en s"
| "greater_than_zero en (JArr vs) = string_positive en (js_to_string (JArr vs))"
| "greater_than_zero en (JObj kvs) = False"

fun length_positive :: "env \<Rightarrow> json \<Rightarrow> bool" where
  "length_positive en (JStr s) = (s \<noteq> [])"
| "length_positive en (JArr vs) = (vs \<noteq> [])"
| "length_positive en (JObj kvs) =
     (case map_of (rev kvs) ''length'' of None \<Rightarrow> False | Some v \<Rightarrow> greater_than_zero en v)"
| "length_positive en v = False"

definition has_ids :: "env \<Rightarrow> json option \<Rightarrow> bool" where
  "has_ids en documentIds =
     (case truthy_value documentIds of None \<Rightarrow> False | Some v \<Rightarrow> length_positive en v)"

definition resolved_documents ::
  "env \<Rightarrow> collection \<Rightarrow> json option \<Rightarrow> json \<Rightarrow> string + document list" where
  \<comment> \<open>the two calls of \<^verbatim>\<open>find\<close> (server.ts, 268-272 and 285-288)\<close>
  "resolved_documents en st documentIds ws =
     (if has_ids en documentIds
      then find_documents en
             \<lparr>id_in = documentIds, workspace_is = ws, processed_is = Some True\<rparr> st
      else find_documents en
             \<lparr>id_in = None, workspace_is = ws, processed_is = Some True\<rparr> st)"

definition no_documents_message :: "env \<Rightarrow> json option \<Rightarrow> string" where
  "no_documents_message en documentIds =
     (if has_ids en documentIds then ''No processed documents found for the provided IDs.''
      else ''No documents have been processed yet. Please upload a file first.'')"

definition qa_catch :: "string \<Rightarrow> response" where
  "qa_catch m =
     (if str_includes m ''API key not valid''
      then (401, Message ''Gemini API key is invalid or not configured.'')
      else (500, Failure ''Error getting AI response'' (Text m)))"

definition no_information :: response where
  "no_information =
     (200, Answer (''I couldn'' @ [CHR 0x27] @ ''t find relevant information in the uploaded ''
                   @ ''documents for your query. Please try rephrasing or upload more ''
                   @ ''relevant files.'') [] None [])"

definition llm_prompt :: "string \<Rightarrow> string \<Rightarrow> string" where
  "llm_prompt context_text query =
     ''You are an intelligent assistant. Answer the following question based ONLY on the ''
     @ ''provided context. If the answer cannot be found in the context, state that you don''
     @ [CHR 0x27] @ ''t have enough information.'' @ [CHR 0x0A]
     @ ''If the question asks for numerical comparison or data visualization, suggest a ''
     @ ''chart type (e.g., '' @ [CHR 0x22] @ ''bar chart'' @ [CHR 0x22] @ '', ''
     @ [CHR 0x22] @ ''line chart'' @ [CHR 0x22] @ '', '' @ [CHR 0x22] @ ''pie chart''
     @ [CHR 0x22] @ '') and briefly describe what it would show.'' @ [CHR 0x0A, CHR 0x0A]
     @ ''Context:'' @ [CHR 0x0A] @ context_text @ [CHR 0x0A, CHR 0x0A]
     @ ''Question: '' @ [CHR 0x22] @ query @ [CHR 0x22] @ [CHR 0x0A, CHR 0x0A]
     @ ''Answer:''"

text \<open>
  The block that assigns \<^verbatim>\<open>chartData\<close> (server.ts, 367-372, and again 381-392), as a
  function from the variable's value before the block to its value after it.
\<close>

definition chart_block :: "string \<Rightarrow> string option \<Rightarrow> string option" where
  "chart_block aiAnswer chartData =
     (let a = toLowerCase aiAnswer
      in if str_includes a ''chart'' \<or> str_includes a ''visualize''
         then (let c0 = Some ''A chart showing data from the context would be beneficial.'';
                   c1 = (if str_includes a ''bar chart''
                         then Some ''Bar chart showing comparison.'' else c0);
                   c2 = (if str_includes a ''line chart''
                         then Some ''Line chart showing trends over time.'' else c1)
               in if str_includes a ''pie chart''
                  then Some ''Pie chart showing proportions.'' else c2)
         else chartData)"

definition next_steps_block :: "string \<Rightarrow> string list \<Rightarrow> string list" where
  "next_steps_block aiAnswer nextSteps =
     (let a = toLowerCase aiAnswer
      in if str_includes a ''suggested next steps''
         then [''Review the detailed report.'', ''Discuss findings with the team.'']
         else if str_includes a ''further analysis''
         then [''Perform further analysis on identified areas.'']
         else nextSteps)"

definition query_args :: "string \<Rightarrow> string list \<Rightarrow> string list" where
  "query_args query chromaDocumentIds =
     [''query_documents'', query, join '','' chromaDocumentIds]"

definition answer_response :: "string \<Rightarrow> chunk list \<Rightarrow> response" where
  \<comment> \<open>server.ts, 364-406: from the model's answer to the response\<close>
  "answer_response aiAnswer relevantChunks =
     (let chartData = None;
          nextSteps = [];
          chartData = chart_block aiAnswer chartData;
          citations = map chunk_source relevantChunks;
          chartData = chart_block aiAnswer chartData;
          nextSteps = next_steps_block aiAnswer nextSteps
      in (200, Answer aiAnswer citations chartData nextSteps))"

text \<open>
  The retrieval step (server.ts, 302-313): run \<^verbatim>\<open>query_documents\<close> and parse its output;
  a rejected run and a failed parse both throw.
\<close>

definition retrieve :: "env \<Rightarrow> string \<Rightarrow> string list \<Rightarrow> string + chunk list" where
  "retrieve en query chromaDocumentIds =
     (case runPythonScript (python en (query_args query chromaDocumentIds)) of
        Inl m \<Rightarrow> Inl m
      | Inr relevantChunksJson \<Rightarrow> json_parse en relevantChunksJson)"

definition context_of :: "chunk list \<Rightarrow> string" where
  "context_of relevantChunks = join [CHR 0x0A, CHR 0x0A] (map chunk_text relevantChunks)"

text \<open>
  The \<^verbatim>\<open>try\<close> block (server.ts, 263-406); every \<open>Inl\<close> is a throw caught at 407. The
  query goes into the argument vector and into the prompt as \<^verbatim>\<open>String(query)\<close>.
\<close>

definition qa_try ::
  "env \<Rightarrow> collection \<Rightarrow> json \<Rightarrow> json option \<Rightarrow> json \<Rightarrow> response \<times> event list" where
  "qa_try en st query documentIds ws =
     (case resolved_documents en st documentIds ws of
        Inl m \<Rightarrow> (qa_catch m, [])
      | Inr documents \<Rightarrow>
          (let chromaDocumentIds = handles_of documents
           in if chromaDocumentIds = []
              then ((400, Message (no_documents_message en documentIds)), [])
              else
                (let queryArgs = query_args (js_to_string query) chromaDocumentIds
                 in case retrieve en (js_to_string query) chromaDocumentIds of
                      Inl m \<Rightarrow> (qa_catch m, [Spawned queryArgs])
                    | Inr relevantChunks \<Rightarrow>
                        if relevantChunks = [] then (no_information, [Spawned queryArgs])
                        else
                          (let llmPrompt =
                                 llm_prompt (context_of relevantChunks) (js_to_string query)
                           in case generate en llmPrompt of
                                Inl m \<Rightarrow> (qa_catch m, [Spawned queryArgs, Generated llmPrompt])
                              | Inr aiAnswer \<Rightarrow>
                                  (answer_response aiAnswer relevantChunks,
                                   [Spawned queryArgs, Generated llmPrompt])))))"

definition universal_qa :: "env \<Rightarrow> collection \<Rightarrow> qa_request \<Rightarrow> response \<times> event list" where
  "universal_qa en st req =
     (case truthy_value (qa_query req) of
        None \<Rightarrow> ((400, Message ''Query is required.''), [])
      | Some query \<Rightarrow>
          (case truthy_value (qa_workspaceId req) of
             None \<Rightarrow> ((400, Message ''Workspace ID is required.''), [])
           | Some ws \<Rightarrow> qa_try en st query (qa_documentIds req) ws))"

section \<open>The query handler with the repeated block removed\<close>

text \<open>
  The program the specification asks for in place of the source's: the block assigning
  \<^verbatim>\<open>chartData\<close> stands once (the copy at server.ts, 367-372, is dropped), and nothing
  else changes.
\<close>

definition answer_response_once :: "string \<Rightarrow> chunk list \<Rightarrow> response" where
  "answer_response_once aiAnswer relevantChunks =
     (let chartData = None;
          nextSteps = [];
          citations = map chunk_source relevantChunks;
          chartData = chart_block aiAnswer chartData;
          nextSteps = next_steps_block aiAnswer nextSteps
      in (200, Answer aiAnswer citations chartData nextSteps))"

definition qa_try_once ::
  "env \<Rightarrow> collection \<Rightarrow> json \<Rightarrow> json option \<Rightarrow> json \<Rightarrow> response \<times> event list" where
  "qa_try_once en st query documentIds ws =
     (case resolved_documents en st documentIds ws of
        Inl m \<Rightarrow> (qa_catch m, [])
      | Inr documents \<Rightarrow>
          (let chromaDocumentIds = handles_of documents
           in if chromaDocumentIds = []
              then ((400, Message (no_documents_message en documentIds)), [])
              else
                (let queryArgs = query_args (js_to_string query) chromaDocumentIds
                 in case retrieve en (js_to_string query) chromaDocumentIds of
                      Inl m \<Rightarrow> (qa_catch m, [Spawned queryArgs])
                    | Inr relevantChunks \<Rightarrow>
                        if relevantChunks = [] then (no_information, [Spawned queryArgs])
                        else
                          (let llmPrompt =
                                 llm_prompt (context_of relevantChunks) (js_to_string query)
                           in case generate en llmPrompt of
                                Inl m \<Rightarrow> (qa_catch m, [Spawned queryArgs, Generated llmPrompt])
                              | Inr aiAnswer \<Rightarrow>
                                  (answer_response_once aiAnswer relevantChunks,
                                   [Spawned queryArgs, Generated llmPrompt])))))"

definition universal_qa_once :: "env \<Rightarrow> collection \<Rightarrow> qa_request \<Rightarrow> response \<times> event list" where
  "universal_qa_once en st req =
     (case truthy_value (qa_query req) of
        None \<Rightarrow> ((400, Message ''Query is required.''), [])
      | Some query \<Rightarrow>
          (case truthy_value (qa_workspaceId req) of
             None \<Rightarrow> ((400, Message ''Workspace ID is required.''), [])
           | Some ws \<Rightarrow> qa_try_once en st query (qa_documentIds req) ws))"

section \<open>Lines of the script's output\<close>

text \<open>
  The specification speaks of the lines of stdout that match \<^verbatim>\<open>SUCCESS:<handle>\<close>. The
  lines of a string are what lies between its line terminators; a line matches when
  \<^verbatim>\<open>SUCCESS:\<close> occurs in it with at least one character after it, and what it captures
  is the rest of the line after the leftmost such occurrence.
\<close>

fun split_lines :: "string \<Rightarrow> string list" where
  "split_lines [] = [[]]"
| "split_lines (c # cs) =
     (if is_line_terminator c then [] # split_lines cs
      else (case split_lines cs of [] \<Rightarrow> [[c]] | l # ls \<Rightarrow> (c # l) # ls))"

fun line_match :: "string \<Rightarrow> string option" where
  "line_match [] = None"
| "line_match (c # cs) =
     (if prefix success_word (c # cs) \<and> drop (length success_word) (c # cs) \<noteq> []
      then Some (drop (length success_word) (c # cs))
      else line_match cs)"

definition matching_lines :: "string \<Rightarrow> string list" where
  \<comment> \<open>what each matching line captures, in the order of the lines\<close>
  "matching_lines s = List.map_filter line_match (split_lines s)"

section \<open>Containment in any case\<close>

text \<open>
  What the specification means by an answer containing a keyword in any case, said
  without \<^verbatim>\<open>toLowerCase\<close>: somewhere in the answer stand the characters of the keyword,
  each as it is or as its capital letter. The keywords are words of small letters a-z
  and spaces.
\<close>

definition same_letter :: "char \<Rightarrow> char \<Rightarrow> bool" where
  "same_letter x k =
     (x = k \<or> (97 \<le> (of_char k :: nat) \<and> (of_char k :: nat) \<le> 122
                \<and> (of_char x :: nat) + 32 = of_char k))"

fun ci_prefix :: "string \<Rightarrow> string \<Rightarrow> bool" where
  "ci_prefix [] s = True"
| "ci_prefix (k # ks) [] = False"
| "ci_prefix (k # ks) (x # xs) = (same_letter x k \<and> ci_prefix ks xs)"

fun ci_contains :: "string \<Rightarrow> string \<Rightarrow> bool" where
  "ci_contains [] k = (k = [])"
| "ci_contains (x # xs) k = (ci_prefix k (x # xs) \<or> ci_contains xs k)"

definition plain_word :: "string \<Rightarrow> bool" where
  "plain_word k =
     list_all (\<lambda>c. c = CHR '' '' \<or> (97 \<le> (of_char c :: nat) \<and> (of_char c :: nat) \<le> 122)) k"



section \<open>A worked scenario\<close>

text \<open>
  One concrete run, used to exercise the theorems below: \<^verbatim>\<open>report.pdf\<close> is uploaded to
  workspace \<^verbatim>\<open>W1\<close>, the embedding run prints \<^verbatim>\<open>SUCCESS:vec123\<close>, and the question
  ``What is the revenue?'' retrieves one passage with source \<^verbatim>\<open>vec123\<close>. In this
  environment no value casts to an \<^verbatim>\<open>ObjectId\<close> but a string of 24 hexadecimal digits, and
  no filter value is accepted on a string path but those written out above; the messages
  of the two errors are shortened.
\<close>

definition ex_passage :: chunk where
  "ex_passage = \<lparr>chunk_text = ''Revenue was $5M'', chunk_source = ''vec123''\<rparr>"

definition ex_answer :: string where
  "ex_answer = ''Revenue was $5M. A Pie Chart of the segments would help.''"

definition ex_id :: string where
  "ex_id = ''64b7f0c2a1d3e4f5a6b7c8d9''"

definition ex_python :: "string list \<Rightarrow> proc_outcome" where
  "ex_python args =
     (case args of
        [] \<Rightarrow> SpawnError ''no command''
      | c # _ \<Rightarrow>
          if c = ''embed_document'' then Closed (Some 0) (''SUCCESS:vec123'' @ [CHR 0x0A]) []
          else Closed (Some 0) ''[passages]'' [])"

definition ex_env :: env where
  "ex_env =
     \<lparr>new_id = ex_id, now = 0, python = ex_python,
      json_parse = (\<lambda>s. if s = ''[passages]'' then Inr [ex_passage] else Inl ''Unexpected token''),
      generate = (\<lambda>p. Inr ex_answer),
      string_positive = (\<lambda>s. False),
      other_id_cast = (\<lambda>v. Inl ''Cast to ObjectId failed''),
      other_filter = (\<lambda>v. Inl ''Cast to string failed'')\<rparr>"

definition ex_file :: upload_file where
  "ex_file =
     \<lparr>originalname = ''report.pdf'', mimetype = ''application/pdf'',
      file_path = ''uploads/1-report.pdf''\<rparr>"

definition ex_upload :: upload_request where
  "ex_upload = \<lparr>req_file = Some ex_file, req_workspaceId = Str ''W1''\<rparr>"

definition ex_pending :: document where
  "ex_pending =
     \<lparr>doc_id = ex_id, fileName = ''report.pdf'',
      originalType = ''application/pdf'', uploadedAt = 0, processed = False,
      chromaDocumentId = None, workspaceId = ''W1''\<rparr>"

definition ex_processed :: document where
  "ex_processed = ex_pending\<lparr>processed := True, chromaDocumentId := Some ''vec123''\<rparr>"

definition ex_question :: qa_request where
  "ex_question =
     \<lparr>qa_query = Some (JStr ''What is the revenue?''), qa_documentIds = None,
      qa_workspaceId = Some (JStr ''W1'')\<rparr>"

text \<open>
  A collection of several workspaces: the processed record of \<^verbatim>\<open>W1\<close> above, a pending
  record of \<^verbatim>\<open>W1\<close>, and one processed record each of \<^verbatim>\<open>W2\<close> and \<^verbatim>\<open>W3\<close>.
\<close>

definition ex_draft :: document where
  "ex_draft =
     \<lparr>doc_id = ''64b7f0c2a1d3e4f5a6b7c8da'', fileName = ''draft.txt'',
      originalType = ''text/plain'', uploadedAt = 1, processed = False,
      chromaDocumentId = None, workspaceId = ''W1''\<rparr>"

definition ex_payroll :: document where
  "ex_payroll =
     \<lparr>doc_id = ''64b7f0c2a1d3e4f5a6b7c8db'', fileName = ''payroll.pdf'',
      originalType = ''application/pdf'', uploadedAt = 2, processed = True,
      chromaDocumentId = Some ''vec999'', workspaceId = ''W2''\<rparr>"

definition ex_contract :: document where
  "ex_contract =
     \<lparr>doc_id = ''64b7f0c2a1d3e4f5a6b7c8dc'', fileName = ''contract.pdf'',
      originalType = ''application/pdf'', uploadedAt = 3, processed = True,
      chromaDocumentId = Some ''vec777'', workspaceId = ''W3''\<rparr>"

definition ex_collection :: collection where
  "ex_collection = [ex_processed, ex_draft, ex_payroll, ex_contract]"

text \<open>
  Two requests a client can send: one names a document by an id that is not an
  \<^verbatim>\<open>ObjectId\<close>, the other gives a query operator where the workspace id belongs.
\<close>

definition ex_malformed_id :: qa_request where
  "ex_malformed_id = ex_question\<lparr>qa_documentIds := Some (JArr [JStr ''doc1''])\<rparr>"

definition ex_operator :: qa_request where
  "ex_operator = ex_question\<lparr>qa_workspaceId := Some (JObj [(''$ne'', JStr ''W1'')])\<rparr>"

section \<open>Observations on records and responses\<close>

text \<open>The invariant of a document record: it holds a handle exactly when it is processed.\<close>

definition consistent :: "document \<Rightarrow> bool" where
  "consistent d = (processed d = (chromaDocumentId d \<noteq> None))"

text \<open>The \<^verbatim>\<open>documentId\<close> key of a response body; only the success body of the upload has it.\<close>

fun response_document_id :: "response \<Rightarrow> string option" where
  "response_document_id (_, Uploaded _ documentId _) = Some documentId"
| "response_document_id _ = None"

text \<open>A run of the scenario in which the embedding script fails.\<close>

definition ex_failing_env :: env where
  "ex_failing_env = ex_env\<lparr>python := (\<lambda>args. Closed (Some 1) [] ''boom'')\<rparr>"

section \<open>Properties\<close>

subsection \<open>What find returns\<close>

lemma truthy_value_Some: "truthy_value x = Some v \<longleftrightarrow> x = Some v \<and> js_truthy v"
  by (cases x) (auto simp: truthy_value_def)

lemma find_in_workspace:
  "find_documents en \<lparr>id_in = None, workspace_is = JStr ws, processed_is = None\<rparr> st
     = Inr (filter (\<lambda>d. workspaceId d = ws) st)"
  by (simp add: find_documents_def cast_filter_def)

lemma find_processed_in_workspace:
  "find_documents en \<lparr>id_in = None, workspace_is = JStr ws, processed_is = Some True\<rparr> st
     = Inr (filter (\<lambda>d. workspaceId d = ws \<and> processed d) st)"
  by (simp add: find_documents_def cast_filter_def)

lemma find_ids_in_workspace:
  assumes "cast_object_ids en (in_operand v) = Inr ids"
  shows "find_documents en \<lparr>id_in = Some v, workspace_is = JStr ws, processed_is = Some True\<rparr> st
           = Inr (filter (\<lambda>d. doc_id d \<in> set ids \<and> workspaceId d = ws \<and> processed d) st)"
  using assms by (simp add: find_documents_def cast_filter_def)

lemma find_ids_cast_error:
  assumes "cast_object_ids en (in_operand v) = Inl m"
  shows "find_documents en \<lparr>id_in = Some v, workspace_is = JStr ws, processed_is = Some True\<rparr> st
           = Inl m"
  using assms by (simp add: find_documents_def cast_filter_def)

lemma find_not_in_workspace:
  "find_documents en
     \<lparr>id_in = None, workspace_is = JObj [(''$ne'', JStr w)], processed_is = Some True\<rparr> st
     = Inr (filter (\<lambda>d. workspaceId d \<noteq> w \<and> processed d) st)"
  by (simp add: find_documents_def cast_filter_def)

lemma has_ids_omitted [simp]: "\<not> has_ids en None" "\<not> has_ids en (Some (JArr []))"
  by (simp_all add: has_ids_def truthy_value_def)

lemma has_ids_array: "has_ids en (Some (JArr vs)) \<longleftrightarrow> vs \<noteq> []"
  by (simp add: has_ids_def truthy_value_def)

subsection \<open>An empty list of document ids\<close>

lemma no_documents_message_empty:
  "no_documents_message en (Some (JArr [])) = no_documents_message en None"
  by (simp add: no_documents_message_def)

lemma resolved_empty_omitted:
  "resolved_documents en st (Some (JArr [])) ws = resolved_documents en st None ws"
  by (simp add: resolved_documents_def)

lemma resolved_omitted:
  "resolved_documents en st None (JStr ws)
     = Inr (filter (\<lambda>d. workspaceId d = ws \<and> processed d) st)"
  by (simp add: resolved_documents_def find_processed_in_workspace)

lemma qa_try_empty_ids: "qa_try en st q (Some (JArr [])) ws = qa_try en st q None ws"
  unfolding qa_try_def no_documents_message_empty resolved_empty_omitted ..

text \<open>
  C10. A query whose \<^verbatim>\<open>documentIds\<close> is present but empty is answered exactly as the same
  query with \<^verbatim>\<open>documentIds\<close> omitted (same response, same calls to the outside); and for
  a workspace id \<open>ws\<close> its target set is the records of the collection that are processed
  and whose \<^verbatim>\<open>workspaceId\<close> is \<open>ws\<close>, all of them and no other.
\<close>

theorem empty_id_list_as_omitted:
  "universal_qa en st (req\<lparr>qa_documentIds := Some (JArr [])\<rparr>)
     = universal_qa en st (req\<lparr>qa_documentIds := None\<rparr>)
   \<and> resolved_documents en st (Some (JArr [])) (JStr ws)
     = Inr (filter (\<lambda>d. workspaceId d = ws \<and> processed d) st)"
  by (simp add: universal_qa_def qa_try_empty_ids resolved_empty_omitted resolved_omitted
      split: option.splits)

subsection \<open>The worked scenario, step by step\<close>

lemma ex_resolved:
  "resolved_documents ex_env [ex_processed] None (JStr ''W1'') = Inr [ex_processed]"
  by (simp add: resolved_omitted ex_processed_def ex_pending_def)

lemma ex_handles: "handles_of [ex_processed] = [''vec123'']"
  by (simp add: handles_of_def ex_processed_def ex_pending_def)

lemma ex_question_fields:
  "truthy_value (qa_query ex_question) = Some (JStr ''What is the revenue?'')"
  "truthy_value (qa_workspaceId ex_question) = Some (JStr ''W1'')"
  "qa_documentIds ex_question = None"
  by (simp_all add: ex_question_def truthy_value_def)

lemma ex_retrieve: "retrieve ex_env ''What is the revenue?'' [''vec123''] = Inr [ex_passage]"
  by (simp add: retrieve_def ex_env_def ex_python_def query_args_def trim_def
      is_white_space_def is_line_terminator_def)

lemma ex_generate:
  "generate ex_env p = Inr ex_answer"
  by (simp add: ex_env_def)

lemma ex_chart:
  "chart_block ex_answer None
     = Some ''Pie chart showing proportions.''"
  by code_simp

lemma ex_next:
  "next_steps_block ex_answer [] = []"
  by code_simp

subsection \<open>The request fields\<close>

lemma qa_lookup:
  assumes "truthy_value (qa_query req) = Some q" and "truthy_value (qa_workspaceId req) = Some ws"
  shows "universal_qa en st req = qa_try en st q (qa_documentIds req) ws"
  using assms by (simp add: universal_qa_def)

subsection \<open>Zero passages\<close>

text \<open>
  C5. When the target set is not empty and retrieval returns no passage, the handler
  answers 200 with the fixed text, no citation, no next step and no chart hint; the
  response does not mention the query, and the only call to the outside is the retrieval
  run: the language model is not called.
\<close>

theorem zero_passages_fixed_answer:
  assumes "truthy_value (qa_query req) = Some q"
    and "truthy_value (qa_workspaceId req) = Some ws"
    and "resolved_documents en st (qa_documentIds req) ws = Inr documents"
    and "handles_of documents = hs" and "hs \<noteq> []"
    and "retrieve en (js_to_string q) hs = Inr []"
  shows "universal_qa en st req = (no_information, [Spawned (query_args (js_to_string q) hs)])
         \<and> (\<forall>p. Generated p \<notin> set (snd (universal_qa en st req)))"
  using assms by (simp add: qa_lookup qa_try_def)

theorem zero_passages_fixed_answer_witness:
  "fst (universal_qa (ex_env\<lparr>json_parse := (\<lambda>s. Inr [])\<rparr>) [ex_processed] ex_question)
     = (200, Answer (''I couldn'' @ [CHR 0x27] @ ''t find relevant information in the uploaded ''
                     @ ''documents for your query. Please try rephrasing or upload more ''
                     @ ''relevant files.'') [] None [])"
proof -
  have r: "retrieve (ex_env\<lparr>json_parse := (\<lambda>s. Inr [])\<rparr>)
             (js_to_string (JStr ''What is the revenue?'')) [''vec123''] = Inr []"
    by (simp add: retrieve_def ex_env_def ex_python_def query_args_def trim_def
        is_white_space_def is_line_terminator_def)
  have d: "resolved_documents (ex_env\<lparr>json_parse := (\<lambda>s. Inr [])\<rparr>) [ex_processed]
             (qa_documentIds ex_question) (JStr ''W1'') = Inr [ex_processed]"
    by (simp add: ex_question_fields resolved_omitted ex_processed_def ex_pending_def)
  from zero_passages_fixed_answer [OF ex_question_fields(1,2) d ex_handles _ r]
  show ?thesis by (simp add: no_information_def)
qed

subsection \<open>Citations\<close>

text \<open>
  C6. When retrieval returns a non-empty passage list and the language model answers, the
  response is a 200 answer whose citations are the \<^verbatim>\<open>source\<close> fields of the passages:
  as many citations as passages, citation \<open>i\<close> being the source of passage \<open>i\<close>, with
  nothing merged or dropped.
\<close>

theorem citations_are_passage_sources:
  assumes "truthy_value (qa_query req) = Some q"
    and "truthy_value (qa_workspaceId req) = Some ws"
    and "resolved_documents en st (qa_documentIds req) ws = Inr documents"
    and "handles_of documents = hs" and "hs \<noteq> []"
    and "retrieve en (js_to_string q) hs = Inr chunks" and "chunks \<noteq> []"
    and "generate en (llm_prompt (context_of chunks) (js_to_string q)) = Inr a"
  shows "\<exists>cits cd ns. fst (universal_qa en st req) = (200, Answer a cits cd ns)
           \<and> cits = map chunk_source chunks
           \<and> length cits = length chunks
           \<and> (\<forall>i<length chunks. cits ! i = chunk_source (chunks ! i))"
  using assms by (simp add: qa_lookup qa_try_def answer_response_def)

theorem citations_are_passage_sources_witness:
  "\<exists>cits cd ns.
     fst (universal_qa ex_env [ex_processed] ex_question)
       = (200, Answer ex_answer cits cd ns)
     \<and> cits = [''vec123'']"
proof -
  have d: "resolved_documents ex_env [ex_processed] (qa_documentIds ex_question) (JStr ''W1'')
             = Inr [ex_processed]"
    by (simp add: ex_question_fields ex_resolved)
  have r: "retrieve ex_env (js_to_string (JStr ''What is the revenue?'')) [''vec123'']
             = Inr [ex_passage]"
    by (simp add: ex_retrieve)
  from citations_are_passage_sources
    [OF ex_question_fields(1,2) d ex_handles _ r _ ex_generate]
  show ?thesis by (simp add: ex_passage_def)
qed

subsection \<open>The repeated chart block\<close>

lemma chart_block_twice: "chart_block a (chart_block a c) = chart_block a c"
  by (simp add: chart_block_def Let_def)

lemma answer_response_once_eq: "answer_response a cs = answer_response_once a cs"
  by (simp add: answer_response_def answer_response_once_def chart_block_twice)

lemma qa_try_once_eq: "qa_try en st q ids ws = qa_try_once en st q ids ws"
  unfolding qa_try_def qa_try_once_def answer_response_once_eq ..

lemma ex_question_run:
  "universal_qa ex_env [ex_processed] ex_question
     = ((200, Answer ex_answer [''vec123''] (Some ''Pie chart showing proportions.'') []),
        [Spawned [''query_documents'', ''What is the revenue?'', ''vec123''],
         Generated (llm_prompt ''Revenue was $5M'' ''What is the revenue?'')])"
  by (simp add: qa_lookup [OF ex_question_fields(1,2)] qa_try_def ex_question_fields
      ex_resolved ex_handles ex_retrieve ex_generate answer_response_def chart_block_twice
      ex_chart ex_next context_of_def ex_passage_def query_args_def Let_def)

text \<open>
  C9. The second run of the chart block assigns to \<^verbatim>\<open>chartData\<close> the value the first run
  gave it, whatever the answer text; so the handler and the handler with the first copy
  of the block removed return the same response and make the same calls, on every input.
\<close>

theorem duplicate_chart_block_is_redundant:
  "chart_block a (chart_block a None) = chart_block a None
   \<and> answer_response a cs = answer_response_once a cs
   \<and> universal_qa en st req = universal_qa_once en st req"
  by (simp add: chart_block_twice answer_response_once_eq universal_qa_def
      universal_qa_once_def qa_try_once_eq split: option.splits)

theorem duplicate_chart_block_is_redundant_witness:
  "universal_qa_once ex_env [ex_processed] ex_question
     = ((200, Answer ex_answer
                [''vec123''] (Some ''Pie chart showing proportions.'') []),
        [Spawned [''query_documents'', ''What is the revenue?'', ''vec123''],
         Generated (llm_prompt ''Revenue was $5M'' ''What is the revenue?'')])"
  using duplicate_chart_block_is_redundant [of _ _ ex_env "[ex_processed]" ex_question]
  by (simp only: ex_question_run)

subsection \<open>Writes to the collection\<close>

lemma insert_document_Inr:
  assumes "insert_document st d = Inr st'"
  shows "st' = st @ [d]" and "\<not> list_ex (\<lambda>e. doc_id e = doc_id d) st"
  using assms by (auto simp: insert_document_def split: if_splits)

lemma update_processed_Inr:
  assumes "update_processed st i h = Inr st'"
  shows "st' = map (\<lambda>e. if doc_id e = i then mark_processed h e else e) st"
  using assms by (auto simp: update_processed_def split: if_splits)

lemma new_document_fields [simp]:
  "doc_id (new_document en f ws) = new_id en"
  "processed (new_document en f ws) = False"
  "chromaDocumentId (new_document en f ws) = None"
  "workspaceId (new_document en f ws) = ws"
  by (simp_all add: new_document_def)

lemma mark_processed_fields [simp]:
  "doc_id (mark_processed h e) = doc_id e"
  "processed (mark_processed h e) = True"
  "chromaDocumentId (mark_processed h e) = Some h"
  "workspaceId (mark_processed h e) = workspaceId e"
  by (simp_all add: mark_processed_def)

lemma upload_lookup:
  assumes "req_file req = Some f" and "req_workspaceId req = Str ws" and "ws \<noteq> []"
  shows "universal_upload en st req = upload_try en st f ws"
  using assms by (simp add: universal_upload_def)

text \<open>
  The writes of one upload, in order: none; or the insertion of the pending record; or
  that insertion followed by the one update that marks this record processed.
\<close>

lemma upload_writes:
  "saved_states (snd (universal_upload en st req)) = []
   \<or> (\<exists>f ws st1. insert_document st (new_document en f ws) = Inr st1
        \<and> (saved_states (snd (universal_upload en st req)) = [st1]
           \<or> (\<exists>h st2. update_processed st1 (new_id en) h = Inr st2
                \<and> saved_states (snd (universal_upload en st req)) = [st1, st2])))"
proof (cases "\<exists>f ws. req_file req = Some f \<and> req_workspaceId req = Str ws \<and> ws \<noteq> []")
  case False
  then have "snd (universal_upload en st req) = []"
    by (auto simp: universal_upload_def split: option.splits form_field.splits)
  then show ?thesis by simp
next
  case True
  then obtain f ws where r: "req_file req = Some f" "req_workspaceId req = Str ws" "ws \<noteq> []"
    by blast
  show ?thesis
  proof (cases "insert_document st (new_document en f ws)")
    case (Inl e)
    then show ?thesis by (simp add: upload_lookup [OF r] upload_try_def Let_def)
  next
    case (Inr st1)
    show ?thesis
    proof (cases "embed_result (python en (embed_args f (new_id en)))")
      case (Inl m)
      with Inr show ?thesis by (auto simp: upload_lookup [OF r] upload_try_def Let_def)
    next
      case h: (Inr h)
      show ?thesis
      proof (cases "update_processed st1 (new_id en) h")
        case (Inl e)
        with Inr h show ?thesis by (auto simp: upload_lookup [OF r] upload_try_def Let_def)
      next
        case st2: (Inr st2)
        with Inr h show ?thesis by (auto simp: upload_lookup [OF r] upload_try_def Let_def)
      qed
    qed
  qed
qed

lemma upload_write_cases:
  assumes "st' \<in> set (saved_states (snd (universal_upload en st req)))"
  obtains (pending) f ws where "insert_document st (new_document en f ws) = Inr st'"
  | (marked) f ws st1 h where "insert_document st (new_document en f ws) = Inr st1"
      and "update_processed st1 (new_id en) h = Inr st'"
  using upload_writes [of en st req] assms
  by (elim disjE exE conjE; simp; blast)

lemma upload_writes_reachable:
  assumes "reachable st" and "st' \<in> set (saved_states (snd (universal_upload en st req)))"
  shows "reachable st'"
  using assms(2)
proof (cases rule: upload_write_cases)
  case (pending f ws)
  with assms(1) show ?thesis by (rule reachable_insert)
next
  case (marked f ws st1 h)
  from assms(1) marked(1) have "reachable st1" by (rule reachable_insert)
  then show ?thesis using marked(2) by (rule reachable_update)
qed

lemma reachable_consistent:
  assumes "reachable st" and "d \<in> set st"
  shows "consistent d"
  using assms
proof (induction arbitrary: d rule: reachable.induct)
  case reachable_empty
  then show ?case by simp
next
  case (reachable_insert st en f ws st')
  from reachable_insert.hyps(2) have "st' = st @ [new_document en f ws]"
    by (rule insert_document_Inr)
  with reachable_insert.prems reachable_insert.IH show ?case
    by (auto simp: consistent_def)
next
  case (reachable_update st i h st')
  from reachable_update.hyps(2)
  have "st' = map (\<lambda>e. if doc_id e = i then mark_processed h e else e) st"
    by (rule update_processed_Inr)
  with reachable_update.prems reachable_update.IH show ?case
    by (auto simp: consistent_def)
qed

lemma update_after_insert:
  assumes "insert_document st d = Inr st1" and "update_processed st1 (doc_id d) h = Inr st2"
  shows "st2 = st @ [mark_processed h d]"
proof -
  let ?g = "\<lambda>e. if doc_id e = doc_id d then mark_processed h e else e"
  have "\<not> list_ex (\<lambda>e. doc_id e = doc_id d) st"
    using assms(1) by (rule insert_document_Inr)
  then have "map ?g st = st"
    by (simp add: list_ex_iff map_idI)
  moreover have "st1 = st @ [d]"
    using assms(1) by (rule insert_document_Inr)
  moreover have "st2 = map ?g st1"
    using assms(2) by (rule update_processed_Inr)
  ultimately show ?thesis by simp
qed

lemma upload_write_shapes:
  "\<exists>d. processed d = False \<and> chromaDocumentId d = None
       \<and> (saved_states (snd (universal_upload en st req)) = []
          \<or> saved_states (snd (universal_upload en st req)) = [st @ [d]]
          \<or> (\<exists>h. saved_states (snd (universal_upload en st req))
                    = [st @ [d], st @ [d\<lparr>processed := True, chromaDocumentId := Some h\<rparr>]]))"
proof -
  from upload_writes [of en st req]
  consider "saved_states (snd (universal_upload en st req)) = []"
    | f ws st1 where "insert_document st (new_document en f ws) = Inr st1"
        and "saved_states (snd (universal_upload en st req)) = [st1]"
    | f ws st1 h st2 where "insert_document st (new_document en f ws) = Inr st1"
        and "update_processed st1 (new_id en) h = Inr st2"
        and "saved_states (snd (universal_upload en st req)) = [st1, st2]"
    by blast
  then show ?thesis
  proof cases
    case 1
    have "processed (new_document en undefined undefined) = False"
      "chromaDocumentId (new_document en undefined undefined) = None"
      by simp_all
    with 1 show ?thesis by blast
  next
    case (2 f ws st1)
    from 2(1) have "st1 = st @ [new_document en f ws]" by (rule insert_document_Inr)
    with 2(2) have "saved_states (snd (universal_upload en st req)) = [st @ [new_document en f ws]]"
      by simp
    moreover have "processed (new_document en f ws) = False"
      "chromaDocumentId (new_document en f ws) = None"
      by simp_all
    ultimately show ?thesis by blast
  next
    case (3 f ws st1 h st2)
    from 3(1) have s1: "st1 = st @ [new_document en f ws]" by (rule insert_document_Inr)
    from 3(2) have "update_processed st1 (doc_id (new_document en f ws)) h = Inr st2" by simp
    with 3(1) have "st2 = st @ [mark_processed h (new_document en f ws)]"
      by (rule update_after_insert)
    with s1 3(3) have "saved_states (snd (universal_upload en st req))
        = [st @ [new_document en f ws],
           st @ [(new_document en f ws)\<lparr>processed := True, chromaDocumentId := Some h\<rparr>]]"
      by (simp add: mark_processed_def)
    moreover have "processed (new_document en f ws) = False"
      "chromaDocumentId (new_document en f ws) = None"
      by simp_all
    ultimately show ?thesis by blast
  qed
qed

subsection \<open>Handle and processed flag\<close>

text \<open>
  C1. In every collection that can be observed, every record has a handle
  (\<^verbatim>\<open>chromaDocumentId\<close>) exactly when \<^verbatim>\<open>processed\<close> is true; and every collection an upload
  leaves behind after one of its writes is such a collection. An upload writes at most
  twice: it appends a record with \<^verbatim>\<open>processed = false\<close> and no handle, and one update of
  that record sets \<^verbatim>\<open>processed = true\<close> and the handle together.
\<close>

theorem handle_iff_processed:
  assumes "reachable st"
  shows "(\<forall>d\<in>set st. processed d = (chromaDocumentId d \<noteq> None))
         \<and> (\<forall>st'\<in>set (saved_states (snd (universal_upload en st req))).
               reachable st' \<and> (\<forall>d\<in>set st'. processed d = (chromaDocumentId d \<noteq> None)))
         \<and> (\<exists>d. processed d = False \<and> chromaDocumentId d = None
               \<and> (saved_states (snd (universal_upload en st req)) = []
                  \<or> saved_states (snd (universal_upload en st req)) = [st @ [d]]
                  \<or> (\<exists>h. saved_states (snd (universal_upload en st req))
                            = [st @ [d],
                               st @ [d\<lparr>processed := True, chromaDocumentId := Some h\<rparr>]])))"
proof -
  have "\<forall>d\<in>set st. processed d = (chromaDocumentId d \<noteq> None)"
    using assms reachable_consistent unfolding consistent_def by blast
  moreover have "\<forall>st'\<in>set (saved_states (snd (universal_upload en st req))).
               reachable st' \<and> (\<forall>d\<in>set st'. processed d = (chromaDocumentId d \<noteq> None))"
    using assms reachable_consistent upload_writes_reachable unfolding consistent_def by blast
  ultimately show ?thesis
    using upload_write_shapes [of en st req] by blast
qed

lemma ex_embed: "embed_result (python ex_env (embed_args ex_file ex_id)) = Inr ''vec123''"
  by code_simp

lemma ex_insert: "insert_document [] (new_document ex_env ex_file ''W1'') = Inr [ex_pending]"
  by (simp add: insert_document_def required_missing_def handle_taken_def new_document_def
      ex_env_def ex_file_def ex_pending_def)

lemma ex_update: "update_processed [ex_pending] ex_id ''vec123'' = Inr [ex_processed]"
  by (simp add: update_processed_def handle_taken_def mark_processed_def ex_processed_def
      ex_pending_def)

lemma ex_upload_fields:
  "req_file ex_upload = Some ex_file" "req_workspaceId ex_upload = Str ''W1''" "''W1'' \<noteq> []"
  by (simp_all add: ex_upload_def)

lemma ex_new_id: "new_id ex_env = ex_id" "new_id ex_failing_env = ex_id"
  by (simp_all add: ex_env_def ex_failing_env_def)

lemma ex_upload_run:
  "universal_upload ex_env [] ex_upload
     = ((200, Uploaded ''File uploaded and processed successfully!'' ex_id ''vec123''),
        [Saved [ex_pending], Spawned (embed_args ex_file ex_id), Saved [ex_processed]])"
  by (simp add: upload_lookup [OF ex_upload_fields] upload_try_def ex_insert ex_new_id
      ex_embed ex_update Let_def)

theorem handle_iff_processed_witness:
  "reachable [ex_processed]
   \<and> processed ex_processed = (chromaDocumentId ex_processed \<noteq> None)
   \<and> saved_states (snd (universal_upload ex_env [] ex_upload)) = [[ex_pending], [ex_processed]]"
proof -
  have s: "saved_states (snd (universal_upload ex_env [] ex_upload))
             = [[ex_pending], [ex_processed]]"
    by (simp add: ex_upload_run)
  from handle_iff_processed [OF reachable_empty, of ex_env ex_upload] s
  have r: "reachable [ex_processed]" by simp
  from handle_iff_processed [OF r, of ex_env ex_upload]
  have "processed ex_processed = (chromaDocumentId ex_processed \<noteq> None)" by simp
  with r s show ?thesis by simp
qed

subsection \<open>A failed embedding\<close>

lemma ex_failing_embed:
  "embed_result (python ex_failing_env (embed_args ex_file ex_id))
     = Inl ''Python script exited with code 1. Stderr: boom''"
  by code_simp

lemma ex_failing_insert:
  "insert_document [] (new_document ex_failing_env ex_file ''W1'') = Inr [ex_pending]"
  by (simp add: insert_document_def required_missing_def handle_taken_def new_document_def
      ex_env_def ex_failing_env_def ex_file_def ex_pending_def)

text \<open>
  The claim C2 says that a failed embedding is reported to the caller together with the
  id of the document. It is not: here the script exits with code 1, the pending record
  stays in the collection, and the 500 body holds the two keys \<^verbatim>\<open>message\<close> and
  \<^verbatim>\<open>error\<close> only.
\<close>

theorem failed_upload_reports_no_document_id:
  "universal_upload ex_failing_env [] ex_upload
     = ((500, Failure ''Error processing file''
                (Text ''Python script exited with code 1. Stderr: boom'')),
        [Saved [ex_pending], Spawned (embed_args ex_file ex_id)])
   \<and> response_document_id (fst (universal_upload ex_failing_env [] ex_upload)) \<noteq> Some ex_id"
  by (simp add: upload_lookup [OF ex_upload_fields] upload_try_def ex_failing_insert ex_new_id
      ex_failing_embed upload_catch_def Let_def)

text \<open>
  C2, amended. An upload whose record can be stored writes the pending record
  (\<^verbatim>\<open>processed = false\<close>, no handle) before it runs the embedding script. If the
  embedding then fails, that record is what the collection is left with, unchanged, and
  the caller gets status 500 with the failure's message; the body carries no document id.
\<close>

theorem failed_embedding_keeps_pending_record:
  assumes "req_file req = Some f" and "req_workspaceId req = Str ws" and "ws \<noteq> []"
    and "insert_document st (new_document en f ws) = Inr st1"
  shows "st1 = st @ [new_document en f ws]
         \<and> processed (new_document en f ws) = False
         \<and> chromaDocumentId (new_document en f ws) = None
         \<and> (\<exists>rest. snd (universal_upload en st req)
                     = Saved st1 # Spawned (embed_args f (new_id en)) # rest)
         \<and> (\<forall>reason. embed_result (python en (embed_args f (new_id en))) = Inl reason \<longrightarrow>
               universal_upload en st req
                 = ((500, Failure ''Error processing file'' (Text reason)),
                    [Saved st1, Spawned (embed_args f (new_id en))])
               \<and> final_state st (snd (universal_upload en st req)) = st1
               \<and> response_document_id (fst (universal_upload en st req)) = None)"
proof -
  have "st1 = st @ [new_document en f ws]"
    using assms(4) by (rule insert_document_Inr)
  moreover have "\<exists>rest. snd (universal_upload en st req)
                     = Saved st1 # Spawned (embed_args f (new_id en)) # rest"
    using assms(4)
    by (simp add: upload_lookup [OF assms(1-3)] upload_try_def Let_def split: sum.splits)
  moreover have "universal_upload en st req
                 = ((500, Failure ''Error processing file'' (Text reason)),
                    [Saved st1, Spawned (embed_args f (new_id en))])"
    if "embed_result (python en (embed_args f (new_id en))) = Inl reason" for reason
    using assms(4) that
    by (simp add: upload_lookup [OF assms(1-3)] upload_try_def Let_def upload_catch_def)
  ultimately show ?thesis
    by (simp add: final_state_def upload_catch_def)
qed

theorem failed_embedding_keeps_pending_record_witness:
  "final_state [] (snd (universal_upload ex_failing_env [] ex_upload)) = [ex_pending]
   \<and> fst (universal_upload ex_failing_env [] ex_upload)
       = (500, Failure ''Error processing file''
                 (Text ''Python script exited with code 1. Stderr: boom''))
   \<and> processed ex_pending = False \<and> chromaDocumentId ex_pending = None"
proof -
  have e: "embed_result (python ex_failing_env (embed_args ex_file (new_id ex_failing_env)))
             = Inl ''Python script exited with code 1. Stderr: boom''"
    by (simp add: ex_new_id ex_failing_embed)
  from failed_embedding_keeps_pending_record [OF ex_upload_fields ex_failing_insert] e
  have "final_state [] (snd (universal_upload ex_failing_env [] ex_upload)) = [ex_pending]
        \<and> fst (universal_upload ex_failing_env [] ex_upload)
            = (500, Failure ''Error processing file''
                      (Text ''Python script exited with code 1. Stderr: boom''))"
    by auto
  then show ?thesis by (simp add: ex_pending_def)
qed

subsection \<open>No processed document\<close>

lemma handles_of_Nil [simp]: "handles_of [] = []"
  by (simp add: handles_of_def)

lemma truthy_Some: "truthy x = Some h \<longleftrightarrow> x = Some h \<and> h \<noteq> []"
  by (cases x) auto

lemma set_handles_of:
  "set (handles_of ds) = {h. h \<noteq> [] \<and> (\<exists>d\<in>set ds. chromaDocumentId d = Some h)}"
  unfolding handles_of_def
  by (induction ds) (auto simp: truthy_Some split: option.splits)

lemma handles_of_truthy: "h \<in> set (handles_of ds) \<Longrightarrow> h \<noteq> []"
  by (simp add: set_handles_of)

lemma qa_status_200:
  assumes "fst (fst (qa_try en st q ids ws)) = 200"
  shows "\<exists>documents. resolved_documents en st ids ws = Inr documents
           \<and> handles_of documents \<noteq> []"
  using assms by (auto simp: qa_try_def qa_catch_def Let_def split: sum.splits if_splits)

lemma qa_spawned:
  assumes "Spawned args \<in> set (snd (qa_try en st q ids ws))"
  shows "\<exists>documents. resolved_documents en st ids ws = Inr documents
           \<and> handles_of documents \<noteq> []
           \<and> args = query_args (js_to_string q) (handles_of documents)"
  using assms by (auto simp: qa_try_def Let_def split: if_splits sum.splits)

text \<open>
  What the handler does when the target set is empty, for a workspace id that is a
  string and ids that are given as an array: if the ids all cast and no processed record
  of the workspace has one of them, or if no id is given and the workspace has no
  processed record, it answers 400 with the message for that case and calls nothing
  outside. A 200 answer is only given when the candidate handle set is not empty, and the
  retrieval script is only ever run with a non-empty list of non-empty handles.
\<close>

lemma no_processed_documents_rejected:
  assumes "truthy_value (qa_query req) = Some q" and "qa_workspaceId req = Some (JStr w)"
    and "w \<noteq> []"
  shows "(\<forall>vs ids. qa_documentIds req = Some (JArr vs) \<and> vs \<noteq> []
              \<and> cast_object_ids en vs = Inr ids
              \<and> \<not> (\<exists>d\<in>set st. doc_id d \<in> set ids \<and> workspaceId d = w \<and> processed d)
            \<longrightarrow> universal_qa en st req
                  = ((400, Message ''No processed documents found for the provided IDs.''), []))
         \<and> ((qa_documentIds req = None \<or> qa_documentIds req = Some (JArr []))
              \<and> \<not> (\<exists>d\<in>set st. workspaceId d = w \<and> processed d)
            \<longrightarrow> universal_qa en st req
                  = ((400, Message
                        ''No documents have been processed yet. Please upload a file first.''), []))
         \<and> (fst (fst (universal_qa en st req)) = 200
            \<longrightarrow> (\<exists>documents. resolved_documents en st (qa_documentIds req) (JStr w) = Inr documents
                  \<and> handles_of documents \<noteq> []))
         \<and> (\<forall>args. Spawned args \<in> set (snd (universal_qa en st req))
            \<longrightarrow> (\<exists>hs. hs \<noteq> [] \<and> [] \<notin> set hs \<and> args = query_args (js_to_string q) hs))"
proof -
  have ws: "truthy_value (qa_workspaceId req) = Some (JStr w)"
    using assms(2,3) by (simp add: truthy_value_def)
  note run = qa_lookup [OF assms(1) ws]
  have a: "universal_qa en st req
             = ((400, Message ''No processed documents found for the provided IDs.''), [])"
    if "qa_documentIds req = Some (JArr vs)" and "vs \<noteq> []"
      and "cast_object_ids en vs = Inr ids"
      and "\<not> (\<exists>d\<in>set st. doc_id d \<in> set ids \<and> workspaceId d = w \<and> processed d)"
    for vs ids
  proof -
    from that(2) have h: "has_ids en (Some (JArr vs))"
      by (simp add: has_ids_array)
    from that(3) have "cast_object_ids en (in_operand (JArr vs)) = Inr ids"
      by (simp add: in_operand_def)
    then have "resolved_documents en st (Some (JArr vs)) (JStr w)
                 = Inr (filter (\<lambda>d. doc_id d \<in> set ids \<and> workspaceId d = w \<and> processed d) st)"
      using h by (simp add: resolved_documents_def find_ids_in_workspace)
    also from that(4)
    have "filter (\<lambda>d. doc_id d \<in> set ids \<and> workspaceId d = w \<and> processed d) st = []"
      by (auto simp: filter_empty_conv)
    finally show ?thesis
      using h that(1) by (simp add: run qa_try_def no_documents_message_def)
  qed
  have b: "universal_qa en st req
             = ((400, Message
                   ''No documents have been processed yet. Please upload a file first.''), [])"
    if "qa_documentIds req = None \<or> qa_documentIds req = Some (JArr [])"
      and "\<not> (\<exists>d\<in>set st. workspaceId d = w \<and> processed d)"
  proof -
    from that(1) have n: "\<not> has_ids en (qa_documentIds req)"
      by auto
    then have "resolved_documents en st (qa_documentIds req) (JStr w)
                 = Inr (filter (\<lambda>d. workspaceId d = w \<and> processed d) st)"
      by (simp add: resolved_documents_def find_processed_in_workspace)
    also from that(2) have "filter (\<lambda>d. workspaceId d = w \<and> processed d) st = []"
      by (auto simp: filter_empty_conv)
    finally show ?thesis
      using n by (simp add: run qa_try_def no_documents_message_def)
  qed
  have c: "\<exists>documents. resolved_documents en st (qa_documentIds req) (JStr w) = Inr documents
             \<and> handles_of documents \<noteq> []"
    if "fst (fst (universal_qa en st req)) = 200"
    using that unfolding run by (rule qa_status_200)
  have d: "\<exists>hs. hs \<noteq> [] \<and> [] \<notin> set hs \<and> args = query_args (js_to_string q) hs"
    if "Spawned args \<in> set (snd (universal_qa en st req))" for args
    using qa_spawned [of args en st q "qa_documentIds req" "JStr w"] that handles_of_truthy
    unfolding run by blast
  from a b c d show ?thesis by blast
qed

lemma ex_capital_id_casts:
  "cast_object_id ex_env (JStr ''64B7F0C2A1D3E4F5A6B7C8D9'') = Inr ex_id"
proof -
  have "toLowerCase ''64B7F0C2A1D3E4F5A6B7C8D9'' = ''64b7f0c2a1d3e4f5a6b7c8d9''"
    by code_simp
  moreover have "list_all is_hex_digit ''64B7F0C2A1D3E4F5A6B7C8D9''"
    by (simp add: is_hex_digit_def)
  moreover have "length ''64B7F0C2A1D3E4F5A6B7C8D9'' = 24"
    by simp
  ultimately show ?thesis
    unfolding cast_object_id_def json.case by (simp only: ex_id_def simp_thms if_True)
qed

lemma ex_ids_cast:
  "cast_object_ids ex_env [JStr ''64b7f0c2a1d3e4f5a6b7c8d9''] = Inr [ex_id]"
  "cast_object_ids ex_env [JStr ''64B7F0C2A1D3E4F5A6B7C8D9''] = Inr [ex_id]"
  "cast_object_ids ex_env [JStr ''doc1''] = Inl ''Cast to ObjectId failed''"
proof -
  show "cast_object_ids ex_env [JStr ''64b7f0c2a1d3e4f5a6b7c8d9''] = Inr [ex_id]"
    by code_simp
  show "cast_object_ids ex_env [JStr ''64B7F0C2A1D3E4F5A6B7C8D9''] = Inr [ex_id]"
    by (simp add: ex_capital_id_casts)
  show "cast_object_ids ex_env [JStr ''doc1''] = Inl ''Cast to ObjectId failed''"
    by (simp add: cast_object_id_def ex_env_def)
qed

text \<open>An id spelled in capital letters names the same document.\<close>

lemma ex_capital_id_resolves:
  "resolved_documents ex_env [ex_processed] (Some (JArr [JStr ''64B7F0C2A1D3E4F5A6B7C8D9'']))
     (JStr ''W1'') = Inr [ex_processed]"
proof -
  have "cast_object_ids ex_env (in_operand (JArr [JStr ''64B7F0C2A1D3E4F5A6B7C8D9'']))
          = Inr [ex_id]"
    by (simp only: in_operand_def json.case ex_ids_cast)
  from find_ids_in_workspace [OF this] show ?thesis
    by (simp add: resolved_documents_def has_ids_array ex_processed_def ex_pending_def)
qed

text \<open>
  C4 holds for ids that cast to \<^verbatim>\<open>ObjectId\<close> (the lemma above), and fails for an id that
  does not: \<^verbatim>\<open>find\<close> at server.ts 268 throws the \<^verbatim>\<open>CastError\<close>, the catch at 407
  answers it, and the client that named no processed document gets status 401 or 500 with
  the message of the cast, never the 400 of the claim.
\<close>

theorem uncastable_document_id_is_server_error:
  assumes "truthy_value (qa_query req) = Some q" and "qa_workspaceId req = Some (JStr w)"
    and "w \<noteq> []"
    and "qa_documentIds req = Some (JArr vs)" and "cast_object_ids en vs = Inl m"
  shows "universal_qa en st req = (qa_catch m, [])
         \<and> fst (fst (universal_qa en st req)) \<noteq> 400"
proof -
  have ws: "truthy_value (qa_workspaceId req) = Some (JStr w)"
    using assms(2,3) by (simp add: truthy_value_def)
  from assms(5) have "vs \<noteq> []" by auto
  then have h: "has_ids en (Some (JArr vs))"
    by (simp add: has_ids_array)
  from assms(5) have "cast_object_ids en (in_operand (JArr vs)) = Inl m"
    by (simp add: in_operand_def)
  then have "resolved_documents en st (Some (JArr vs)) (JStr w) = Inl m"
    using h by (simp add: resolved_documents_def find_ids_cast_error)
  then have "universal_qa en st req = (qa_catch m, [])"
    using assms(4) by (simp add: qa_lookup [OF assms(1) ws] qa_try_def)
  then show ?thesis by (simp add: qa_catch_def)
qed

theorem uncastable_document_id_is_server_error_witness:
  "universal_qa ex_env [ex_pending] ex_malformed_id
     = ((500, Failure ''Error getting AI response'' (Text ''Cast to ObjectId failed'')), [])"
proof -
  have f: "truthy_value (qa_query ex_malformed_id) = Some (JStr ''What is the revenue?'')"
    "qa_workspaceId ex_malformed_id = Some (JStr ''W1'')" "''W1'' \<noteq> []"
    "qa_documentIds ex_malformed_id = Some (JArr [JStr ''doc1''])"
    by (simp_all add: ex_malformed_id_def ex_question_def truthy_value_def)
  have "qa_catch ''Cast to ObjectId failed''
          = (500, Failure ''Error getting AI response'' (Text ''Cast to ObjectId failed''))"
    by code_simp
  with uncastable_document_id_is_server_error [OF f ex_ids_cast(3), of "[ex_pending]"]
  show ?thesis by simp
qed

subsection \<open>Workspace scoping\<close>

lemma cast_filter_scoped:
  assumes "workspace_is flt = JStr B" and "cast_filter en flt = Inr selected" and "selected d"
  shows "workspaceId d = B"
  using assms by (auto simp: cast_filter_def split: option.splits sum.splits)

lemma resolved_documents_scoped:
  assumes "resolved_documents en st ids (JStr B) = Inr documents" and "d \<in> set documents"
  shows "d \<in> set st \<and> workspaceId d = B \<and> processed d"
  using assms
  by (auto simp: resolved_documents_def find_documents_def cast_filter_def
      split: if_splits option.splits sum.splits)

text \<open>
  Every collection an upload writes is the collection it found with one record more, and
  that record carries the workspace id of the upload.
\<close>

lemma upload_appends_own_record:
  assumes "st' \<in> set (saved_states (snd (universal_upload en st up)))"
  shows "\<exists>d. st' = st @ [d] \<and> req_workspaceId up = Str (workspaceId d)"
proof -
  from assms have "snd (universal_upload en st up) \<noteq> []" by auto
  then obtain f A where up: "req_file up = Some f" "req_workspaceId up = Str A" "A \<noteq> []"
    by (auto simp: universal_upload_def split: option.splits form_field.splits if_splits)
  show ?thesis
  proof (cases "insert_document st (new_document en f A)")
    case (Inl e)
    with assms show ?thesis by (simp add: upload_lookup [OF up] upload_try_def Let_def)
  next
    case (Inr st1)
    then have st1: "st1 = st @ [new_document en f A]" by (rule insert_document_Inr)
    show ?thesis
    proof (cases "embed_result (python en (embed_args f (new_id en)))")
      case (Inl m)
      with Inr assms have "st' = st1"
        by (simp add: upload_lookup [OF up] upload_try_def Let_def)
      with st1 up(2) show ?thesis by simp
    next
      case h: (Inr h)
      show ?thesis
      proof (cases "update_processed st1 (new_id en) h")
        case (Inl e)
        with Inr h assms have "st' = st1"
          by (simp add: upload_lookup [OF up] upload_try_def Let_def)
        with st1 up(2) show ?thesis by simp
      next
        case st2: (Inr st2)
        from st2 have "update_processed st1 (doc_id (new_document en f A)) h = Inr st2"
          by simp
        with Inr have "st2 = st @ [mark_processed h (new_document en f A)]"
          by (rule update_after_insert)
        moreover from Inr h st2 assms have "st' = st1 \<or> st' = st2"
          by (simp add: upload_lookup [OF up] upload_try_def Let_def)
        ultimately show ?thesis using st1 up(2) by auto
      qed
    qed
  qed
qed

lemma find_after_upload:
  assumes "workspace_is flt = JStr B" and "req_workspaceId up \<noteq> Str B"
    and "st' \<in> set (saved_states (snd (universal_upload en' st up)))"
  shows "find_documents en flt st' = find_documents en flt st"
proof (cases "cast_filter en flt")
  case (Inl m)
  then show ?thesis by (simp add: find_documents_def)
next
  case (Inr selected)
  from upload_appends_own_record [OF assms(3)] assms(2)
  obtain d where d: "st' = st @ [d]" "workspaceId d \<noteq> B" by auto
  from cast_filter_scoped [OF assms(1) Inr] d(2) have "\<not> selected d" by blast
  with Inr d(1) show ?thesis by (simp add: find_documents_def)
qed

text \<open>
  Where the workspace id is a string, reads are scoped. The listing returns exactly the
  records of the collection whose \<^verbatim>\<open>workspaceId\<close> is the requested one; the records the
  query handler resolves for a workspace id that is a string, with or without explicit
  ids, are records of that workspace; and an upload to another workspace changes neither.
\<close>

lemma string_workspace_id_is_scoped:
  "(\<exists>msg. workspace_documents en st B
            = (200, Documents msg (filter (\<lambda>d. workspaceId d = B) st)))
   \<and> (\<forall>documents. resolved_documents en st ids (JStr B) = Inr documents
        \<longrightarrow> (\<forall>d\<in>set documents. d \<in> set st \<and> workspaceId d = B))
   \<and> (\<forall>st'\<in>set (saved_states (snd (universal_upload en' st up))).
         req_workspaceId up \<noteq> Str B
        \<longrightarrow> workspace_documents en st' B = workspace_documents en st B
            \<and> resolved_documents en st' ids (JStr B) = resolved_documents en st ids (JStr B))"
proof -
  have 1: "\<exists>msg. workspace_documents en st B
            = (200, Documents msg (filter (\<lambda>d. workspaceId d = B) st))"
    by (simp add: workspace_documents_def find_in_workspace)
  have 2: "\<forall>d\<in>set documents. d \<in> set st \<and> workspaceId d = B"
    if "resolved_documents en st ids (JStr B) = Inr documents" for documents
    using resolved_documents_scoped [OF that] by blast
  have 3: "workspace_documents en st' B = workspace_documents en st B
            \<and> resolved_documents en st' ids (JStr B) = resolved_documents en st ids (JStr B)"
    if s: "st' \<in> set (saved_states (snd (universal_upload en' st up)))"
      and w: "req_workspaceId up \<noteq> Str B" for st'
  proof -
    have f: "find_documents en flt st' = find_documents en flt st"
      if "workspace_is flt = JStr B" for flt
      using find_after_upload [OF that w s] .
    show ?thesis
      by (simp add: workspace_documents_def resolved_documents_def f)
  qed
  from 1 2 3 show ?thesis by blast
qed

text \<open>The upload handler refuses a workspace id that is not a string (server.ts, 190).\<close>

lemma upload_refuses_other_than_string:
  assumes "req_file up = Some f" and "req_workspaceId up = NotAString"
  shows "universal_upload en st up = ((400, Message ''Workspace ID is required.''), [])"
  using assms by (simp add: universal_upload_def)

text \<open>
  C8 fails in the query handler, which has no such check (server.ts, 254-261): any truthy
  value of the body goes into the filter. Given the operator \<^verbatim>\<open>{"$ne": w}\<close> as the
  workspace id, \<^verbatim>\<open>find\<close> returns the processed records of every workspace but \<open>w\<close>, and
  their handles are what the handler sends to retrieval.
\<close>

theorem operator_workspace_id_reads_other_workspaces:
  assumes "truthy_value (qa_query req) = Some q"
    and "qa_workspaceId req = Some (JObj [(''$ne'', JStr w)])"
    and "qa_documentIds req = None"
    and "handles_of (filter (\<lambda>d. workspaceId d \<noteq> w \<and> processed d) st) \<noteq> []"
  shows "resolved_documents en st None (JObj [(''$ne'', JStr w)])
           = Inr (filter (\<lambda>d. workspaceId d \<noteq> w \<and> processed d) st)
         \<and> Spawned (query_args (js_to_string q)
                      (handles_of (filter (\<lambda>d. workspaceId d \<noteq> w \<and> processed d) st)))
             \<in> set (snd (universal_qa en st req))"
proof -
  have ws: "truthy_value (qa_workspaceId req) = Some (JObj [(''$ne'', JStr w)])"
    using assms(2) by (simp add: truthy_value_def)
  have r: "resolved_documents en st None (JObj [(''$ne'', JStr w)])
             = Inr (filter (\<lambda>d. workspaceId d \<noteq> w \<and> processed d) st)"
    by (simp add: resolved_documents_def find_not_in_workspace)
  moreover have "Spawned (query_args (js_to_string q)
                      (handles_of (filter (\<lambda>d. workspaceId d \<noteq> w \<and> processed d) st)))
             \<in> set (snd (universal_qa en st req))"
    using assms(3,4) r
    by (simp add: qa_lookup [OF assms(1) ws] qa_try_def Let_def split: sum.splits)
  ultimately show ?thesis by simp
qed

theorem operator_workspace_id_reads_other_workspaces_witness:
  "Spawned [''query_documents'', ''What is the revenue?'', ''vec999,vec777'']
     \<in> set (snd (universal_qa ex_env ex_collection ex_operator))
   \<and> workspaceId ex_payroll = ''W2'' \<and> chromaDocumentId ex_payroll = Some ''vec999''
   \<and> workspaceId ex_contract = ''W3'' \<and> chromaDocumentId ex_contract = Some ''vec777''"
proof -
  have f: "truthy_value (qa_query ex_operator) = Some (JStr ''What is the revenue?'')"
    "qa_workspaceId ex_operator = Some (JObj [(''$ne'', JStr ''W1'')])"
    "qa_documentIds ex_operator = None"
    by (simp_all add: ex_operator_def ex_question_def truthy_value_def)
  have s: "filter (\<lambda>d. workspaceId d \<noteq> ''W1'' \<and> processed d) ex_collection
             = [ex_payroll, ex_contract]"
    by (simp add: ex_collection_def ex_processed_def ex_pending_def ex_draft_def
        ex_payroll_def ex_contract_def)
  have h: "handles_of [ex_payroll, ex_contract] = [''vec999'', ''vec777'']"
    by (simp add: handles_of_def ex_payroll_def ex_contract_def)
  have "query_args (js_to_string (JStr ''What is the revenue?'')) [''vec999'', ''vec777'']
          = [''query_documents'', ''What is the revenue?'', ''vec999,vec777'']"
    by (simp add: query_args_def)
  with operator_workspace_id_reads_other_workspaces [OF f, of ex_collection ex_env]
  have "Spawned [''query_documents'', ''What is the revenue?'', ''vec999,vec777'']
          \<in> set (snd (universal_qa ex_env ex_collection ex_operator))"
    by (simp add: s h)
  then show ?thesis
    by (simp add: ex_payroll_def ex_contract_def)
qed

subsection \<open>The success line\<close>

lemma prefix_takeWhile_iff:
  assumes "\<forall>x\<in>set k. P x"
  shows "prefix k (takeWhile P s) \<longleftrightarrow> prefix k s"
proof
  assume "prefix k (takeWhile P s)"
  then show "prefix k s"
    using takeWhile_is_prefix [of P s] by (rule prefix_order.trans)
next
  assume "prefix k s"
  then obtain t where "s = k @ t" by (auto simp: prefix_def)
  with assms show "prefix k (takeWhile P s)" by simp
qed

lemma takeWhile_drop_prefix:
  assumes "\<forall>x\<in>set k. P x" and "prefix k s"
  shows "takeWhile P (drop (length k) s) = drop (length k) (takeWhile P s)"
proof -
  from assms(2) obtain t where "s = k @ t" by (auto simp: prefix_def)
  with assms(1) show ?thesis by simp
qed

lemma success_word_plain: "\<forall>x\<in>set success_word. \<not> is_line_terminator x"
  by (simp add: success_word_def is_line_terminator_def)

lemma success_word_not_terminator:
  assumes "is_line_terminator c"
  shows "\<not> prefix success_word (c # cs)"
  using assms by (auto simp: success_word_def is_line_terminator_def)

lemma prefix_rest_of_line: "prefix success_word (rest_of_line s) \<longleftrightarrow> prefix success_word s"
  unfolding rest_of_line_def using success_word_plain by (rule prefix_takeWhile_iff)

lemma rest_of_line_drop:
  assumes "prefix success_word s"
  shows "rest_of_line (drop (length success_word) s)
           = drop (length success_word) (rest_of_line s)"
  unfolding rest_of_line_def using success_word_plain assms by (rule takeWhile_drop_prefix)

lemma split_lines_first: "\<exists>ls. split_lines s = rest_of_line s # ls"
  by (induction s) (auto simp: rest_of_line_def)

lemma line_match_rest_of_line:
  assumes "\<not> is_line_terminator c"
  shows "line_match (c # rest_of_line cs)
           = (if prefix success_word (c # cs)
                 \<and> rest_of_line (drop (length success_word) (c # cs)) \<noteq> []
              then Some (rest_of_line (drop (length success_word) (c # cs)))
              else line_match (rest_of_line cs))"
proof -
  have r: "c # rest_of_line cs = rest_of_line (c # cs)"
    using assms by (simp add: rest_of_line_def)
  have "prefix success_word (c # rest_of_line cs) \<longleftrightarrow> prefix success_word (c # cs)"
    unfolding r by (rule prefix_rest_of_line)
  moreover have "drop (length success_word) (c # rest_of_line cs)
                   = rest_of_line (drop (length success_word) (c # cs))"
    if "prefix success_word (c # cs)"
    unfolding r using that by (simp only: rest_of_line_drop)
  ultimately show ?thesis
    by (auto simp del: Cons_prefix_Cons drop_Suc_Cons)
qed

text \<open>The regular expression finds what the first matching line captures.\<close>

lemma success_match_first_line:
  "success_match s = (case matching_lines s of [] \<Rightarrow> None | g # _ \<Rightarrow> Some g)"
proof (induction s)
  case Nil
  show ?case by (simp add: matching_lines_def)
next
  case (Cons c cs)
  obtain ls where ls: "split_lines cs = rest_of_line cs # ls"
    using split_lines_first by blast
  show ?case
  proof (cases "is_line_terminator c")
    case True
    with Cons.IH success_word_not_terminator [OF True, of cs] show ?thesis
      by (simp add: matching_lines_def del: Cons_prefix_Cons)
  next
    case False
    have m: "matching_lines (c # cs)
               = (case line_match (c # rest_of_line cs) of
                    None \<Rightarrow> List.map_filter line_match ls
                  | Some g \<Rightarrow> g # List.map_filter line_match ls)"
      using False by (simp add: matching_lines_def ls)
    have i: "success_match cs
               = (case line_match (rest_of_line cs) of
                    None \<Rightarrow> (case List.map_filter line_match ls of [] \<Rightarrow> None | g # _ \<Rightarrow> Some g)
                  | Some g \<Rightarrow> Some g)"
      using Cons.IH by (simp add: matching_lines_def ls split: option.splits)
    show ?thesis
      unfolding m line_match_rest_of_line [OF False] success_match.simps i
      by (simp split: option.splits del: Cons_prefix_Cons)
  qed
qed

lemma embed_result_closed_ok:
  "embed_result (Closed (Some 0) out err)
     = (case matching_lines (trim out) of
          [] \<Rightarrow> Inl (''Python processing failed: '' @ trim out)
        | g # _ \<Rightarrow> Inr (trim g))"
  by (simp add: embed_result_def success_match_first_line split: list.splits)

text \<open>
  The claim C3 takes the handle from the last matching line of stdout. With two matching
  lines the handler takes it from the first: the regular expression is not global, and
  \<^verbatim>\<open>match\<close> stops at the leftmost match.
\<close>

theorem handle_not_from_last_matching_line:
  "matching_lines (trim (''SUCCESS:a'' @ [CHR 0x0A] @ ''SUCCESS:b'')) = [''a'', ''b'']
   \<and> embed_result (Closed (Some 0) (''SUCCESS:a'' @ [CHR 0x0A] @ ''SUCCESS:b'') []) = Inr ''a''
   \<and> embed_result (Closed (Some 0) (''SUCCESS:a'' @ [CHR 0x0A] @ ''SUCCESS:b'') [])
       \<noteq> Inr (trim (last (matching_lines (trim (''SUCCESS:a'' @ [CHR 0x0A] @ ''SUCCESS:b'')))))"
  by code_simp

text \<open>
  C3, amended. A run that ends with a code other than 0 is a failure whose reason holds
  the code and the trimmed stderr. A run that ends with code 0 gives the handle captured
  by the first line of the trimmed stdout that matches \<^verbatim>\<open>SUCCESS:<handle>\<close>, trimmed; if
  no line matches it is a failure whose reason holds the trimmed stdout. A script that
  could not be started is a failure too.
\<close>

theorem embed_result_cases:
  "(code \<noteq> Some 0 \<longrightarrow>
      embed_result (Closed code out err)
        = Inl (''Python script exited with code '' @ show_code code @ ''. Stderr: '' @ trim err))
   \<and> embed_result (Closed (Some 0) out err)
       = (case matching_lines (trim out) of
            [] \<Rightarrow> Inl (''Python processing failed: '' @ trim out)
          | g # _ \<Rightarrow> Inr (trim g))
   \<and> embed_result (SpawnError m) = Inl (''Failed to start Python script: '' @ m)"
  by (simp add: embed_result_closed_ok) (simp add: embed_result_def)

theorem embed_result_cases_witness:
  "embed_result (Closed (Some 1) ''SUCCESS:vec123'' ''boom'')
     = Inl ''Python script exited with code 1. Stderr: boom''
   \<and> embed_result (Closed (Some 0) (''SUCCESS:vec123'' @ [CHR 0x0A]) []) = Inr ''vec123''"
proof -
  have "Some (1::int) \<noteq> Some 0" by simp
  moreover have "show_code (Some 1) = ''1''" by code_simp
  moreover have "trim ''boom'' = ''boom''" by code_simp
  moreover have "matching_lines (trim (''SUCCESS:vec123'' @ [CHR 0x0A])) = [''vec123'']"
    by code_simp
  moreover have "trim ''vec123'' = ''vec123''" by code_simp
  ultimately show ?thesis
    using embed_result_cases [of "Some 1" "''SUCCESS:vec123''" "''boom''"]
      embed_result_cases [of _ "''SUCCESS:vec123'' @ [CHR 0x0A]" "[]"]
    by simp
qed

subsection \<open>Keywords in the answer\<close>

lemma of_char_lower_char:
  "(of_char (lower_char x) :: nat)
     = (if (65 \<le> (of_char x :: nat) \<and> (of_char x :: nat) \<le> 90)
           \<or> (192 \<le> (of_char x :: nat) \<and> (of_char x :: nat) \<le> 222 \<and> (of_char x :: nat) \<noteq> 215)
        then of_char x + 32 else of_char x)"
  by (simp add: lower_char_def Let_def)

lemma lower_char_eq_iff:
  assumes "k = CHR '' '' \<or> (97 \<le> (of_char k :: nat) \<and> (of_char k :: nat) \<le> 122)"
  shows "lower_char x = k \<longleftrightarrow> same_letter x k"
proof -
  have s: "(of_char (CHR '' '') :: nat) = 32" by simp
  have "lower_char x = k \<longleftrightarrow> (of_char (lower_char x) :: nat) = of_char k"
    by simp
  also have "\<dots> \<longleftrightarrow> ((of_char x :: nat) = of_char k
               \<or> (97 \<le> (of_char k :: nat) \<and> (of_char k :: nat) \<le> 122
                  \<and> (of_char x :: nat) + 32 = of_char k))"
    using assms s unfolding of_char_lower_char by (cases "k = CHR '' ''") auto
  also have "\<dots> \<longleftrightarrow> same_letter x k"
    by (simp add: same_letter_def)
  finally show ?thesis .
qed

lemma prefix_lower_iff:
  assumes "plain_word k"
  shows "prefix k (toLowerCase s) \<longleftrightarrow> ci_prefix k s"
  using assms
proof (induction k s rule: ci_prefix.induct)
  case (1 s)
  show ?case by simp
next
  case (2 k ks)
  show ?case by (simp add: toLowerCase_def)
next
  case (3 k ks x xs)
  from "3.prems" have "lower_char x = k \<longleftrightarrow> same_letter x k"
    by (intro lower_char_eq_iff) (simp add: plain_word_def)
  moreover from "3.prems" have "prefix ks (toLowerCase xs) \<longleftrightarrow> ci_prefix ks xs"
    by (intro "3.IH") (simp add: plain_word_def)
  ultimately show ?case
    by (auto simp: toLowerCase_def)
qed

lemma includes_lower_iff:
  assumes "plain_word k"
  shows "str_includes (toLowerCase s) k \<longleftrightarrow> ci_contains s k"
proof (induction s)
  case Nil
  show ?case by (simp add: toLowerCase_def)
next
  case (Cons x xs)
  have "prefix k (toLowerCase (x # xs)) \<longleftrightarrow> ci_prefix k (x # xs)"
    using assms by (rule prefix_lower_iff)
  moreover have "toLowerCase (x # xs) = lower_char x # toLowerCase xs"
    by (simp add: toLowerCase_def)
  ultimately show ?case
    using Cons.IH by (simp del: Cons_prefix_Cons)
qed

lemma str_includes_sublist: "str_includes s k \<longleftrightarrow> sublist k s"
  by (induction s) (auto simp: sublist_Cons_right simp del: Cons_prefix_Cons)

lemma str_includes_suffix:
  assumes "str_includes s (p @ k)"
  shows "str_includes s k"
proof -
  have "sublist k (p @ k)" by simp
  moreover from assms have "sublist (p @ k) s" by (simp only: str_includes_sublist)
  ultimately have "sublist k s" by (rule sublist_order.order.trans)
  then show ?thesis by (simp only: str_includes_sublist)
qed

lemma vocabulary_plain:
  "plain_word ''chart''" "plain_word ''visualize''" "plain_word ''bar chart''"
  "plain_word ''line chart''" "plain_word ''pie chart''"
  "plain_word ''suggested next steps''" "plain_word ''further analysis''"
  by (simp_all add: plain_word_def)

lemma chart_words:
  "str_includes s ''bar chart'' \<Longrightarrow> str_includes s ''chart''"
  "str_includes s ''line chart'' \<Longrightarrow> str_includes s ''chart''"
  "str_includes s ''pie chart'' \<Longrightarrow> str_includes s ''chart''"
  using str_includes_suffix [of s "''bar ''" "''chart''"]
    str_includes_suffix [of s "''line ''" "''chart''"]
    str_includes_suffix [of s "''pie ''" "''chart''"]
  by simp_all



lemma ci_contains_chart:
  assumes "ci_contains a ''pie chart''"
  shows "ci_contains a ''chart''"
  using assms chart_words(3) [of "toLowerCase a"]
  unfolding includes_lower_iff [OF vocabulary_plain(1), symmetric]
    includes_lower_iff [OF vocabulary_plain(5), symmetric]
  by simp



subsection \<open>The scenario's query on the collection of several workspaces\<close>

lemma ex_collection_resolved:
  "filter (\<lambda>d. workspaceId d = ''W1'' \<and> processed d) ex_collection = [ex_processed]"
  by (simp add: ex_collection_def ex_processed_def ex_pending_def ex_draft_def
      ex_payroll_def ex_contract_def)

lemma ex_collection_run:
  "universal_qa ex_env ex_collection ex_question
     = ((200, Answer ex_answer [''vec123''] (Some ''Pie chart showing proportions.'') []),
        [Spawned [''query_documents'', ''What is the revenue?'', ''vec123''],
         Generated (llm_prompt ''Revenue was $5M'' ''What is the revenue?'')])"
  by (simp add: qa_lookup [OF ex_question_fields(1,2)] qa_try_def ex_question_fields
      resolved_omitted ex_collection_resolved ex_handles ex_retrieve ex_generate
      answer_response_def chart_block_twice ex_chart ex_next context_of_def ex_passage_def
      query_args_def Let_def)

theorem empty_id_list_as_omitted_witness:
  "universal_qa ex_env ex_collection (ex_question\<lparr>qa_documentIds := Some (JArr [])\<rparr>)
     = ((200, Answer ex_answer [''vec123''] (Some ''Pie chart showing proportions.'') []),
        [Spawned [''query_documents'', ''What is the revenue?'', ''vec123''],
         Generated (llm_prompt ''Revenue was $5M'' ''What is the revenue?'')])
   \<and> resolved_documents ex_env ex_collection (Some (JArr [])) (JStr ''W1'') = Inr [ex_processed]"
proof -
  note t = empty_id_list_as_omitted [of ex_env ex_collection ex_question "''W1''"]
  have "ex_question\<lparr>qa_documentIds := None\<rparr> = ex_question"
    by (simp add: ex_question_def)
  with t have "universal_qa ex_env ex_collection (ex_question\<lparr>qa_documentIds := Some (JArr [])\<rparr>)
          = universal_qa ex_env ex_collection ex_question"
    by simp
  moreover from t
  have "resolved_documents ex_env ex_collection (Some (JArr [])) (JStr ''W1'')
          = Inr (filter (\<lambda>d. workspaceId d = ''W1'' \<and> processed d) ex_collection)"
    by (rule conjunct2)
  ultimately show ?thesis
    by (simp only: ex_collection_run ex_collection_resolved simp_thms)
qed

end
